theory Spec2Isabelle
  imports Complex_Main
begin

section \<open>Go values\<close>

text \<open>
  The service keeps its configuration and the topology records in Go values of type
  \<^verbatim>\<open>interface{}\<close> and \<^verbatim>\<open>map[string]interface{}\<close>. The datatype below holds the dynamic types
  that the code tests with a type assertion or that occur in its settings. A Go map is an
  association list; \<^verbatim>\<open>range\<close> visits it in the order of the list (Go leaves the order open,
  so nothing below depends on a particular one). A \<^verbatim>\<open>float64\<close> is the real number it denotes:
  the code only passes such values on, it never computes with them.
\<close>

datatype iface =
    INil
  | IString string
  | IBool bool
  | IInt int
  | IFloat real
  | IStrings "string list"
  | IFloats "real list"
  | IMap "(string \<times> iface) list"
  | IMaps "(string \<times> iface) list list"
  | IError string

type_synonym gomap = "(string \<times> iface) list"

text \<open>\<^verbatim>\<open>m[k]\<close>: the value stored under the key, the nil interface when the key is missing.\<close>

definition lookup :: "gomap \<Rightarrow> string \<Rightarrow> iface" where
  "lookup m k = (case map_of m k of Some v \<Rightarrow> v | None \<Rightarrow> INil)"

text \<open>\<^verbatim>\<open>_, exists := m[k]\<close>\<close>

definition exists :: "gomap \<Rightarrow> string \<Rightarrow> bool" where
  "exists m k = (map_of m k \<noteq> None)"

text \<open>
  Type assertions, in their two-valued form \<^verbatim>\<open>v, ok := x.(T)\<close>: \<open>None\<close> is \<^verbatim>\<open>ok == false\<close>.
  The one-valued form \<^verbatim>\<open>x.(T)\<close> panics where these give \<open>None\<close>.
\<close>

definition asString :: "iface \<Rightarrow> string option" where
  "asString x = (case x of IString s \<Rightarrow> Some s | _ \<Rightarrow> None)"

definition asStrings :: "iface \<Rightarrow> string list option" where
  "asStrings x = (case x of IStrings ss \<Rightarrow> Some ss | _ \<Rightarrow> None)"

definition asFloats :: "iface \<Rightarrow> real list option" where
  "asFloats x = (case x of IFloats fs \<Rightarrow> Some fs | _ \<Rightarrow> None)"

definition asMap :: "iface \<Rightarrow> gomap option" where
  "asMap x = (case x of IMap m \<Rightarrow> Some m | _ \<Rightarrow> None)"

definition asMaps :: "iface \<Rightarrow> gomap list option" where
  "asMaps x = (case x of IMaps ms \<Rightarrow> Some ms | _ \<Rightarrow> None)"

section \<open>Collectors\<close>

text \<open>
  The collectors of the Prometheus client library, as far as the service uses them. A collector
  keeps the options it was built with. A counter counts its \<^verbatim>\<open>Inc\<close> calls, a gauge holds the
  value of its last \<^verbatim>\<open>Set\<close>, a histogram is represented by the list of the values observed,
  oldest first (the library's bucket counts and sum are functions of that list). A \<^verbatim>\<open>Vec\<close>
  keeps its label names and one child per tuple of label values, the values in the order of
  the label names.
\<close>

record opts =
  Name :: string
  Help :: string

record histogramOpts = opts +
  Buckets :: "real list"

datatype collector =
    Counter opts nat
  | CounterVec opts "string list" "string list \<rightharpoonup> nat"
  | Gauge opts real
  | GaugeVec opts "string list" "string list \<rightharpoonup> real"
  | Histogram histogramOpts "real list"
  | HistogramVec histogramOpts "string list" "string list \<rightharpoonup> real list"

datatype panic =
    TypeAssertion
  | NilDereference
  | LabelMismatch
  | RegisterRefused
  | BucketOrder

text \<open>
  \<^verbatim>\<open>prometheus.NewHistogram\<close> builds the histogram at once and panics unless the buckets it is
  given are in strictly increasing order; an empty list passes, and stands for the default
  buckets. \<^verbatim>\<open>prometheus.NewHistogramVec\<close> builds no histogram: the children of a \<^verbatim>\<open>Vec\<close> are built
  on first use, and the buckets of a \<^verbatim>\<open>Vec\<close> stand for a list that the library accepts then.
\<close>

definition NewHistogram :: "histogramOpts \<Rightarrow> panic + collector option" where
  "NewHistogram opts =
     (if sorted_wrt (<) (Buckets opts) then Inr (Some (Histogram opts [])) else Inl BucketOrder)"

text \<open>
  \<^verbatim>\<open>collectorFromType\<close>. The first two assertions are one-valued and panic; the assertions on
  \<^verbatim>\<open>labelNames\<close> and \<^verbatim>\<open>buckets\<close> are two-valued. \<open>Inr None\<close> is the \<^verbatim>\<open>return nil\<close> after the
  \<^verbatim>\<open>switch\<close>. \<^verbatim>\<open>opts.Buckets\<close> stays the nil slice, here \<open>[]\<close>, unless \<^verbatim>\<open>hasBuckets\<close>.
  A panic of \<^verbatim>\<open>NewHistogram\<close> is a panic of the function. The logger call is left out.
\<close>

definition collectorFromType :: "string \<Rightarrow> gomap \<Rightarrow> panic + collector option" where
  "collectorFromType metricName params =
     (case asString (lookup params ''type'') of
        None \<Rightarrow> Inl TypeAssertion
      | Some metricType \<Rightarrow>
     (case asString (lookup params ''help'') of
        None \<Rightarrow> Inl TypeAssertion
      | Some help \<Rightarrow>
     (let hasLabels = asStrings (lookup params ''labelNames'');
          hasBuckets = asFloats (lookup params ''buckets'')
      in if metricType = ''Gauge'' then
           (let opts = \<lparr>Name = metricName, Help = help\<rparr>
            in case hasLabels of
                 Some labelNames \<Rightarrow> Inr (Some (GaugeVec opts labelNames Map.empty))
               | None \<Rightarrow> Inr (Some (Gauge opts 0)))
         else if metricType = ''Counter'' then
           (let opts = \<lparr>Name = metricName, Help = help\<rparr>
            in case hasLabels of
                 Some labelNames \<Rightarrow> Inr (Some (CounterVec opts labelNames Map.empty))
               | None \<Rightarrow> Inr (Some (Counter opts 0)))
         else if metricType = ''Histogram'' then
           (let opts = \<lparr>Name = metricName, Help = help,
                         Buckets = (case hasBuckets of Some buckets \<Rightarrow> buckets | None \<Rightarrow> [])\<rparr>
            in case hasLabels of
                 Some labelNames \<Rightarrow> Inr (Some (HistogramVec opts labelNames Map.empty))
               | None \<Rightarrow> NewHistogram opts)
         else Inr None)))"

section \<open>The state of the service\<close>

text \<open>
  The variables that the closures of \<^verbatim>\<open>PrometheusService\<close> share, and two objects outside
  them. \<open>collectors\<close> is the Go map from metric names to collectors: a missing
  key and a stored nil both read as the nil interface, here \<open>None\<close>. \<open>registered\<close> holds the
  names registered with the default Prometheus registry, \<open>errorLog\<close> the messages passed to
  \<^verbatim>\<open>logger.Error\<close>. Collectors are shared objects: the registry refers to the same collector
  as the map, so the collector's value is kept once, in \<open>collectors\<close>.
\<close>

record state =
  collectors :: "string \<rightharpoonup> collector"
  metricsCreated :: bool
  registered :: "string list"
  errorLog :: "string list"

text \<open>
  How a run of one closure ends, with the state it leaves. The model is sequential: it follows
  one goroutine. \<open>GateSend\<close> is a goroutine parked at the send \<^verbatim>\<open>metricsCreatedChan <- ...\<close> on
  the unbuffered channel, \<open>GateRecv\<close> one parked at the receive \<^verbatim>\<open><-metricsCreatedChan\<close>.
  \<open>Serving port endpoint\<close> is \<^verbatim>\<open>http.ListenAndServe\<close> running with the exposition handler
  mounted at \<open>endpoint\<close>; the port is kept as the settings give it, and a server that fails
  to start is not modelled.
\<close>

datatype outcome =
    Return state
  | Panic panic state
  | GateSend state
  | GateRecv state
  | Serving iface string state

fun stateOf :: "outcome \<Rightarrow> state" where
  "stateOf (Return s) = s"
| "stateOf (Panic p s) = s"
| "stateOf (GateSend s) = s"
| "stateOf (GateRecv s) = s"
| "stateOf (Serving port endpoint s) = s"

text \<open>Statements in sequence: the next one runs only when the one before returned.\<close>

fun steps :: "(state \<Rightarrow> outcome) list \<Rightarrow> state \<Rightarrow> outcome" where
  "steps [] s = Return s"
| "steps (f # fs) s = (case f s of Return s' \<Rightarrow> steps fs s' | other \<Rightarrow> other)"

text \<open>The state in which \<^verbatim>\<open>PrometheusService\<close> hands out its closures.\<close>

definition PrometheusService :: state where
  "PrometheusService =
     \<lparr>collectors = Map.empty, metricsCreated = False, registered = [], errorLog = []\<rparr>"

section \<open>Creating the metrics\<close>

fun collectorName :: "collector \<Rightarrow> string" where
  "collectorName (Counter opts n) = Name opts"
| "collectorName (CounterVec opts labelNames children) = Name opts"
| "collectorName (Gauge opts v) = Name opts"
| "collectorName (GaugeVec opts labelNames children) = Name opts"
| "collectorName (Histogram opts obs) = Name opts"
| "collectorName (HistogramVec opts labelNames children) = Name opts"

text \<open>
  \<^verbatim>\<open>prometheus.MustRegister\<close>. It panics on a nil collector, on a collector the library refuses
  and on a name that is registered already. What the library refuses (its checks of metric
  names, label names and buckets) is the parameter \<open>accepts\<close>.
\<close>

definition MustRegister :: "(collector \<Rightarrow> bool) \<Rightarrow> collector option \<Rightarrow> state \<Rightarrow> outcome" where
  "MustRegister accepts collector s =
     (case collector of
        None \<Rightarrow> Panic NilDereference s
      | Some c \<Rightarrow>
          if accepts c \<and> collectorName c \<notin> set (registered s)
          then Return (s\<lparr>registered := registered s @ [collectorName c]\<rparr>)
          else Panic RegisterRefused s)"

text \<open>The body of the loop of \<^verbatim>\<open>createMetrics\<close>, for one entry of the \<^verbatim>\<open>metrics\<close> map.\<close>

definition createMetric :: "(collector \<Rightarrow> bool) \<Rightarrow> string \<times> iface \<Rightarrow> state \<Rightarrow> outcome" where
  "createMetric accepts entry s =
     (case entry of (metricName, values) \<Rightarrow>
        (case asMap values of
           None \<Rightarrow> Panic TypeAssertion s
         | Some params \<Rightarrow>
             (case collectorFromType metricName params of
                Inl p \<Rightarrow> Panic p s
              | Inr collector \<Rightarrow>
                  MustRegister accepts collector
                    (s\<lparr>collectors := (collectors s)(metricName := collector)\<rparr>))))"

text \<open>
  \<^verbatim>\<open>createMetrics\<close>. Both early returns log an error and return. After the loop the flag is
  set and the goroutine sends on the channel; it returns once a receiver has taken the value.
\<close>

definition createMetrics :: "(collector \<Rightarrow> bool) \<Rightarrow> gomap \<Rightarrow> state \<Rightarrow> outcome" where
  "createMetrics accepts settings s =
     (if \<not> exists settings ''metrics'' then
        Return (s\<lparr>errorLog := errorLog s @
          [''createMetrics() no metrics field found in the service settings!'']\<rparr>)
      else
        (case asMap (lookup settings ''metrics'') of
           None \<Rightarrow>
             Return (s\<lparr>errorLog := errorLog s @
               [''createMetrics()  metrics found in the service settings is of wrong type - it must be map[string]interface{}!'']\<rparr>)
         | Some metrics \<Rightarrow>
             (case steps (map (createMetric accepts) metrics) s of
                Return s' \<Rightarrow> GateSend (s'\<lparr>metricsCreated := True\<rparr>)
              | other \<Rightarrow> other)))"

text \<open>
  \<^verbatim>\<open>Started\<close>: \<^verbatim>\<open>createMetrics\<close>, then the lines that mount the handler and listen, here
  \<open>listen\<close>. When \<^verbatim>\<open>createMetrics\<close> is parked at its send, so is \<^verbatim>\<open>Started\<close>; it goes on with
  \<open>listen\<close> when the send has been received.
\<close>

definition listen :: "gomap \<Rightarrow> state \<Rightarrow> outcome" where
  "listen settings s =
     (case asString (lookup settings ''endpoint'') of
        None \<Rightarrow> Panic TypeAssertion s
      | Some endpoint \<Rightarrow> Serving (lookup settings ''port'') endpoint s)"

definition Started :: "(collector \<Rightarrow> bool) \<Rightarrow> gomap \<Rightarrow> state \<Rightarrow> outcome" where
  "Started accepts settings s =
     (case createMetrics accepts settings s of
        Return s' \<Rightarrow> listen settings s'
      | other \<Rightarrow> other)"

section \<open>Payloads\<close>

text \<open>
  The handlers read their event through the \<^verbatim>\<open>Payload\<close> interface of the framework, which is
  not part of this repository. Its methods are parameters of the handlers: a record of
  functions over a payload type \<open>'p\<close>. \<open>IsError\<close> belongs to the interface; no handler calls it.
\<close>

record 'p payloadApi =
  New :: "iface \<Rightarrow> 'p"
  Get :: "'p \<Rightarrow> string \<Rightarrow> 'p"
  String :: "'p \<Rightarrow> string"
  Float :: "'p \<Rightarrow> real"
  Bool :: "'p \<Rightarrow> bool"
  Exists :: "'p \<Rightarrow> bool"
  MapArray :: "'p \<Rightarrow> gomap list"
  IsError :: "'p \<Rightarrow> bool"

text \<open>
  A payload implementation over \<open>iface\<close>, for the concrete examples: a wrapper around the value,
  with \<^verbatim>\<open>Get\<close> reading a key of a map and every conversion giving the zero value on a value
  of another type.
\<close>

definition rawPayload :: "iface payloadApi" where
  "rawPayload =
     \<lparr>New = (\<lambda>x. x),
      Get = (\<lambda>p k. case p of IMap m \<Rightarrow> lookup m k | _ \<Rightarrow> INil),
      String = (\<lambda>p. case p of IString s \<Rightarrow> s | _ \<Rightarrow> []),
      Float = (\<lambda>p. case p of IFloat d \<Rightarrow> d | IInt i \<Rightarrow> real_of_int i | _ \<Rightarrow> 0),
      Bool = (\<lambda>p. case p of IBool b \<Rightarrow> b | _ \<Rightarrow> False),
      Exists = (\<lambda>p. p \<noteq> INil),
      MapArray = (\<lambda>p. case p of IMaps ms \<Rightarrow> ms | _ \<Rightarrow> []),
      IsError = (\<lambda>p. case p of IError e \<Rightarrow> True | _ \<Rightarrow> False)\<rparr>"

section \<open>Operations on the collectors\<close>

text \<open>
  \<^verbatim>\<open>prometheus.Labels\<close> is a map from label names to values, here an association list.
  \<^verbatim>\<open>With\<close> panics unless the labels are exactly the label names of the \<^verbatim>\<open>Vec\<close>; the child is
  found under the values in the order of the label names. The library also refuses a label
  value that is not valid UTF-8; the strings here stand for valid text.
\<close>

definition labelValues :: "string list \<Rightarrow> (string \<times> string) list \<Rightarrow> string list option" where
  "labelValues labelNames labels =
     (if length labels = length labelNames \<and> (\<forall>n \<in> set labelNames. map_of labels n \<noteq> None)
      then Some (map (\<lambda>n. the (map_of labels n)) labelNames)
      else None)"

definition store :: "string \<Rightarrow> collector \<Rightarrow> state \<Rightarrow> state" where
  "store name c s = s\<lparr>collectors := (collectors s)(name \<mapsto> c)\<rparr>"

text \<open>
  \<^verbatim>\<open>collectors[name].(prometheus.Counter)\<close> followed by \<^verbatim>\<open>Inc()\<close>. \<^verbatim>\<open>prometheus.Counter\<close> is an
  interface, and a scalar gauge has all its methods, so the assertion lets a gauge through.
\<close>

definition counterInc :: "string \<Rightarrow> state \<Rightarrow> outcome" where
  "counterInc name s =
     (case collectors s name of
        Some (Counter opts n) \<Rightarrow> Return (store name (Counter opts (n + 1)) s)
      | Some (Gauge opts v) \<Rightarrow> Return (store name (Gauge opts (v + 1)) s)
      | _ \<Rightarrow> Panic TypeAssertion s)"

text \<open>
  \<^verbatim>\<open>collectors[name].(*prometheus.CounterVec)\<close> followed by \<^verbatim>\<open>With(labels).Inc()\<close>. The first
  use of a label tuple creates its child at zero.
\<close>

definition counterVecInc :: "string \<Rightarrow> (string \<times> string) list \<Rightarrow> state \<Rightarrow> outcome" where
  "counterVecInc name labels s =
     (case collectors s name of
        Some (CounterVec opts labelNames children) \<Rightarrow>
          (case labelValues labelNames labels of
             None \<Rightarrow> Panic LabelMismatch s
           | Some key \<Rightarrow>
               Return (store name (CounterVec opts labelNames
                 (children(key \<mapsto> (case children key of None \<Rightarrow> 1 | Some n \<Rightarrow> n + 1)))) s))
      | _ \<Rightarrow> Panic TypeAssertion s)"

text \<open>\<^verbatim>\<open>collectors[name].(prometheus.Histogram)\<close> followed by \<^verbatim>\<open>Observe(v)\<close>.\<close>

definition histogramObserve :: "string \<Rightarrow> real \<Rightarrow> state \<Rightarrow> outcome" where
  "histogramObserve name v s =
     (case collectors s name of
        Some (Histogram opts obs) \<Rightarrow> Return (store name (Histogram opts (obs @ [v])) s)
      | _ \<Rightarrow> Panic TypeAssertion s)"

text \<open>\<^verbatim>\<open>collectors[name].(*prometheus.HistogramVec)\<close> followed by \<^verbatim>\<open>With(labels).Observe(v)\<close>.\<close>

definition histogramVecObserve ::
    "string \<Rightarrow> (string \<times> string) list \<Rightarrow> real \<Rightarrow> state \<Rightarrow> outcome" where
  "histogramVecObserve name labels v s =
     (case collectors s name of
        Some (HistogramVec opts labelNames children) \<Rightarrow>
          (case labelValues labelNames labels of
             None \<Rightarrow> Panic LabelMismatch s
           | Some key \<Rightarrow>
               Return (store name (HistogramVec opts labelNames
                 (children(key \<mapsto> (case children key of None \<Rightarrow> [v] | Some obs \<Rightarrow> obs @ [v])))) s))
      | _ \<Rightarrow> Panic TypeAssertion s)"

text \<open>\<^verbatim>\<open>collectors[name].(prometheus.Gauge)\<close> followed by \<^verbatim>\<open>Set(v)\<close>.\<close>

definition gaugeSet :: "string \<Rightarrow> real \<Rightarrow> state \<Rightarrow> outcome" where
  "gaugeSet name v s =
     (case collectors s name of
        Some (Gauge opts old) \<Rightarrow> Return (store name (Gauge opts v) s)
      | _ \<Rightarrow> Panic TypeAssertion s)"

text \<open>\<^verbatim>\<open>collectors[name].(*prometheus.GaugeVec)\<close>, the assertion before each loop.\<close>

definition assertGaugeVec :: "string \<Rightarrow> state \<Rightarrow> outcome" where
  "assertGaugeVec name s =
     (case collectors s name of
        Some (GaugeVec opts labelNames children) \<Rightarrow> Return s
      | _ \<Rightarrow> Panic TypeAssertion s)"

text \<open>\<^verbatim>\<open>With(labels)\<close> on a gauge \<^verbatim>\<open>Vec\<close>: the child is created at zero when it is new.\<close>

definition gaugeVecWith :: "string \<Rightarrow> (string \<times> string) list \<Rightarrow> state \<Rightarrow> outcome" where
  "gaugeVecWith name labels s =
     (case collectors s name of
        Some (GaugeVec opts labelNames children) \<Rightarrow>
          (case labelValues labelNames labels of
             None \<Rightarrow> Panic LabelMismatch s
           | Some key \<Rightarrow>
               Return (store name (GaugeVec opts labelNames
                 (children(key \<mapsto> (case children key of None \<Rightarrow> 0 | Some v \<Rightarrow> v)))) s))
      | _ \<Rightarrow> Panic TypeAssertion s)"

text \<open>\<^verbatim>\<open>With(labels).Set(v)\<close> on a gauge \<^verbatim>\<open>Vec\<close>.\<close>

definition gaugeVecSet :: "string \<Rightarrow> (string \<times> string) list \<Rightarrow> real \<Rightarrow> state \<Rightarrow> outcome" where
  "gaugeVecSet name labels v s =
     (case collectors s name of
        Some (GaugeVec opts labelNames children) \<Rightarrow>
          (case labelValues labelNames labels of
             None \<Rightarrow> Panic LabelMismatch s
           | Some key \<Rightarrow> Return (store name (GaugeVec opts labelNames (children(key \<mapsto> v))) s))
      | _ \<Rightarrow> Panic TypeAssertion s)"

section \<open>The trace handler\<close>

text \<open>\<^verbatim>\<open>traceSpanFinished\<close>, statement by statement; the logger call is left out.\<close>

definition traceSpanFinished :: "'p payloadApi \<Rightarrow> 'p \<Rightarrow> state \<Rightarrow> outcome" where
  "traceSpanFinished api payload s =
     (let service = String api (Get api (Get api payload ''service'') ''name'');
          action = String api (Get api (Get api payload ''action'') ''name'');
          nodeID = String api (Get api payload ''nodeID'');
          duration = Float api (Get api payload ''duration'')
      in steps
          [counterInc ''moleculer_all_req_total'',
           counterVecInc ''moleculer_req_total''
             [(''action'', action), (''service'', service), (''nodeID'', nodeID)],
           histogramObserve ''moleculer_all_req_duration_ms'' duration,
           histogramVecObserve ''moleculer_req_duration_ms''
             [(''action'', action), (''service'', service), (''nodeID'', nodeID)] duration,
           (\<lambda>s. if Exists api (Get api payload ''error'') then
                  steps
                    [counterInc ''moleculer_all_req_errors_total'',
                     counterVecInc ''moleculer_req_errors_total''
                       [(''action'', action), (''service'', service), (''nodeID'', nodeID),
                        (''errorMessage'',
                           String api (Get api (Get api payload ''error'') ''message''))]] s
                else Return s)] s)"

section \<open>The topology handler\<close>

text \<open>
  The body of the loop over the nodes: the value is computed first, then \<^verbatim>\<open>With(...).Set(value)\<close>.
\<close>

definition nodeLabels :: "'p payloadApi \<Rightarrow> 'p \<Rightarrow> (string \<times> string) list" where
  "nodeLabels api node =
     [(''nodeID'', String api (Get api node ''id'')),
      (''type'', String api (Get api (Get api node ''client'') ''type'')),
      (''version'', String api (Get api (Get api node ''client'') ''version'')),
      (''langVersion'', String api (Get api (Get api node ''client'') ''langVersion''))]"

definition setNode :: "'p payloadApi \<Rightarrow> gomap \<Rightarrow> state \<Rightarrow> outcome" where
  "setNode api item s =
     (let node = New api (IMap item);
          v = (if Bool api (Get api node ''available'') then 1 else 0)
      in gaugeVecSet ''moleculer_nodes'' (nodeLabels api node) v s)"

text \<open>
  The body of the other three loops, in the order of the calls from left to right. The labels
  are built from one-valued assertions on the record's fields, each pair of \<open>keys\<close> being a
  label name and the field it is read from; then \<^verbatim>\<open>With(labels)\<close> is called; then the argument
  of \<^verbatim>\<open>Set\<close> is computed, with its assertion on \<^verbatim>\<open>endpoints\<close>; then \<^verbatim>\<open>Set\<close>.
\<close>

definition fieldLabels :: "(string \<times> string) list \<Rightarrow> gomap \<Rightarrow> (string \<times> string) list option" where
  "fieldLabels keys item =
     (if \<forall>f \<in> set keys. asString (lookup item (snd f)) \<noteq> None
      then Some (map (\<lambda>f. (fst f, the (asString (lookup item (snd f))))) keys)
      else None)"

definition setEndpoints :: "string \<Rightarrow> (string \<times> string) list \<Rightarrow> gomap \<Rightarrow> state \<Rightarrow> outcome" where
  "setEndpoints name keys item s =
     (case fieldLabels keys item of
        None \<Rightarrow> Panic TypeAssertion s
      | Some labels \<Rightarrow>
          (case gaugeVecWith name labels s of
             Return s1 \<Rightarrow>
               (case asMaps (lookup item ''endpoints'') of
                  None \<Rightarrow> Panic TypeAssertion s1
                | Some endpoints \<Rightarrow> gaugeVecSet name labels (real (length endpoints)) s1)
           | other \<Rightarrow> other))"

text \<open>
  One group of updates: a result of the fan-out call is read with \<^verbatim>\<open>MapArray\<close>, the total gauge
  is set to its length, and the loop runs over its records. A missing result is a nil
  \<^verbatim>\<open>Payload\<close>, and the method call on it panics.
\<close>

definition updateGroup ::
    "'p payloadApi \<Rightarrow> 'p option \<Rightarrow> string \<Rightarrow> string \<Rightarrow> (gomap \<Rightarrow> state \<Rightarrow> outcome)
       \<Rightarrow> state \<Rightarrow> outcome" where
  "updateGroup api result totalName family body s =
     (case result of
        None \<Rightarrow> Panic NilDereference s
      | Some r \<Rightarrow>
          (let records = MapArray api r
           in steps (gaugeSet totalName (real (length records)) # assertGaugeVec family #
                     map body records) s))"

text \<open>
  The lines of \<^verbatim>\<open>updateCommonValues\<close> after the gate, with \<open>results\<close> the map that
  \<^verbatim>\<open>context.MCall\<close> delivers.
\<close>

definition updateGauges :: "'p payloadApi \<Rightarrow> (string \<rightharpoonup> 'p) \<Rightarrow> state \<Rightarrow> outcome" where
  "updateGauges api results s =
     steps
       [updateGroup api (results ''nodes'') ''moleculer_nodes_total'' ''moleculer_nodes''
          (setNode api),
        updateGroup api (results ''services'') ''moleculer_services_total''
          ''moleculer_service_endpoints_total''
          (setEndpoints ''moleculer_service_endpoints_total''
             [(''service'', ''name''), (''version'', ''version'')]),
        updateGroup api (results ''actions'') ''moleculer_actions_total''
          ''moleculer_action_endpoints_total''
          (setEndpoints ''moleculer_action_endpoints_total'' [(''action'', ''name'')]),
        updateGroup api (results ''events'') ''moleculer_events_total''
          ''moleculer_event_endpoints_total''
          (setEndpoints ''moleculer_event_endpoints_total''
             [(''event'', ''name''), (''group'', ''group'')])] s"

text \<open>
  \<^verbatim>\<open>updateCommonValues\<close>: while the metrics are not created the handler parks at the receive;
  it goes on with \<open>updateGauges\<close> when \<^verbatim>\<open>createMetrics\<close> has sent.
\<close>

definition updateCommonValues :: "'p payloadApi \<Rightarrow> (string \<rightharpoonup> 'p) \<Rightarrow> state \<Rightarrow> outcome" where
  "updateCommonValues api results s =
     (if \<not> metricsCreated s then GateRecv s else updateGauges api results s)"

section \<open>The default settings\<close>

text \<open>The \<^verbatim>\<open>Settings\<close> of the service schema that \<^verbatim>\<open>PrometheusService\<close> returns.\<close>

definition metricsSettings :: gomap where
  "metricsSettings =
     [(''moleculer_nodes_total'',
         IMap [(''type'', IString ''Gauge''), (''help'', IString ''Moleculer nodes count'')]),
      (''moleculer_services_total'',
         IMap [(''type'', IString ''Gauge''), (''help'', IString ''Moleculer services count'')]),
      (''moleculer_actions_total'',
         IMap [(''type'', IString ''Gauge''), (''help'', IString ''Moleculer actions count'')]),
      (''moleculer_events_total'',
         IMap [(''type'', IString ''Gauge''),
               (''help'', IString ''Moleculer events subscriptions'')]),
      (''moleculer_nodes'',
         IMap [(''type'', IString ''Gauge''),
               (''labelNames'', IStrings [''nodeID'', ''type'', ''version'', ''langVersion'']),
               (''help'', IString ''Moleculer node list'')]),
      (''moleculer_action_endpoints_total'',
         IMap [(''type'', IString ''Gauge''),
               (''labelNames'', IStrings [''action'']),
               (''help'', IString ''Moleculer action endpoints'')]),
      (''moleculer_service_endpoints_total'',
         IMap [(''type'', IString ''Gauge''),
               (''labelNames'', IStrings [''service'', ''version'']),
               (''help'', IString ''Moleculer service endpoints'')]),
      (''moleculer_event_endpoints_total'',
         IMap [(''type'', IString ''Gauge''),
               (''labelNames'', IStrings [''event'', ''group'']),
               (''help'', IString ''Moleculer event endpoints'')]),
      (''moleculer_all_req_total'',
         IMap [(''type'', IString ''Counter''),
               (''help'', IString ''Moleculer all actions request count'')]),
      (''moleculer_req_total'',
         IMap [(''type'', IString ''Counter''),
               (''labelNames'', IStrings [''action'', ''service'', ''nodeID'']),
               (''help'', IString ''Moleculer action request count'')]),
      (''moleculer_all_req_errors_total'',
         IMap [(''type'', IString ''Counter''),
               (''help'', IString ''Moleculer all request error count'')]),
      (''moleculer_req_errors_total'',
         IMap [(''type'', IString ''Counter''),
               (''labelNames'', IStrings [''action'', ''service'', ''nodeID'', ''errorMessage'']),
               (''help'', IString ''Moleculer request error count'')]),
      (''moleculer_all_req_duration_ms'',
         IMap [(''type'', IString ''Histogram''),
               (''help'', IString ''Moleculer all request durations''),
               (''buckets'', IFloats [0.001, 0.01, 0.1, 0.5, 1.0, 10.0, 100.0, 300.0, 500.0,
                                      700.0, 1000.0, 5000.0, 10000.0])]),
      (''moleculer_req_duration_ms'',
         IMap [(''type'', IString ''Histogram''),
               (''labelNames'', IStrings [''action'', ''service'', ''nodeID'']),
               (''help'', IString ''Moleculer request durations'')])]"

definition Settings :: gomap where
  "Settings =
     [(''port'', IInt 3030),
      (''endpoint'', IString ''/metrics''),
      (''collectDefaultMetrics'', IBool True),
      (''timeout'', IInt (10 * 1000)),
      (''metrics'', IMap metricsSettings)]"

text \<open>
  The bucket boundaries a histogram works with. The library replaces an \<^verbatim>\<open>opts.Buckets\<close> of
  length zero by its own default, \<^verbatim>\<open>prometheus.DefBuckets\<close>, which is a parameter here.
\<close>

definition upperBounds :: "real list \<Rightarrow> collector \<Rightarrow> real list" where
  "upperBounds DefBuckets c =
     (case c of
        Histogram opts obs \<Rightarrow> if Buckets opts = [] then DefBuckets else Buckets opts
      | HistogramVec opts labelNames children \<Rightarrow>
          if Buckets opts = [] then DefBuckets else Buckets opts
      | _ \<Rightarrow> [])"

section \<open>Reading a collector\<close>

text \<open>What the theorems below say about a collector is said with these functions.\<close>

fun kindOf :: "collector \<Rightarrow> string" where
  "kindOf (Counter opts n) = ''Counter''"
| "kindOf (CounterVec opts labelNames children) = ''Counter''"
| "kindOf (Gauge opts v) = ''Gauge''"
| "kindOf (GaugeVec opts labelNames children) = ''Gauge''"
| "kindOf (Histogram opts obs) = ''Histogram''"
| "kindOf (HistogramVec opts labelNames children) = ''Histogram''"

fun isVec :: "collector \<Rightarrow> bool" where
  "isVec (Counter opts n) = False"
| "isVec (CounterVec opts labelNames children) = True"
| "isVec (Gauge opts v) = False"
| "isVec (GaugeVec opts labelNames children) = True"
| "isVec (Histogram opts obs) = False"
| "isVec (HistogramVec opts labelNames children) = True"

fun labelNamesOf :: "collector \<Rightarrow> string list" where
  "labelNamesOf (CounterVec opts labelNames children) = labelNames"
| "labelNamesOf (GaugeVec opts labelNames children) = labelNames"
| "labelNamesOf (HistogramVec opts labelNames children) = labelNames"
| "labelNamesOf c = []"

fun helpOf :: "collector \<Rightarrow> string" where
  "helpOf (Counter opts n) = Help opts"
| "helpOf (CounterVec opts labelNames children) = Help opts"
| "helpOf (Gauge opts v) = Help opts"
| "helpOf (GaugeVec opts labelNames children) = Help opts"
| "helpOf (Histogram opts obs) = Help opts"
| "helpOf (HistogramVec opts labelNames children) = Help opts"

fun bucketsOf :: "collector \<Rightarrow> real list" where
  "bucketsOf (Histogram opts obs) = Buckets opts"
| "bucketsOf (HistogramVec opts labelNames children) = Buckets opts"
| "bucketsOf c = []"

text \<open>A new collector: no count, no value, no observation, no child.\<close>

fun fresh :: "collector \<Rightarrow> bool" where
  "fresh (Counter opts n) = (n = 0)"
| "fresh (CounterVec opts labelNames children) = (children = Map.empty)"
| "fresh (Gauge opts v) = (v = 0)"
| "fresh (GaugeVec opts labelNames children) = (children = Map.empty)"
| "fresh (Histogram opts obs) = (obs = [])"
| "fresh (HistogramVec opts labelNames children) = (children = Map.empty)"

text \<open>
  The value of a scalar gauge and of one child of a gauge \<^verbatim>\<open>Vec\<close>; \<open>None\<close> when there is no such
  gauge or no such child.
\<close>

definition gaugeValue :: "state \<Rightarrow> string \<Rightarrow> real option" where
  "gaugeValue s name =
     (case collectors s name of Some (Gauge opts v) \<Rightarrow> Some v | _ \<Rightarrow> None)"

definition gaugeChild :: "state \<Rightarrow> string \<Rightarrow> string list \<Rightarrow> real option" where
  "gaugeChild s name key =
     (case collectors s name of
        Some (GaugeVec opts labelNames children) \<Rightarrow> children key
      | _ \<Rightarrow> None)"

text \<open>What \<^verbatim>\<open>createMetrics\<close> builds for one entry of the \<^verbatim>\<open>metrics\<close> map, if anything.\<close>

definition built :: "string \<times> iface \<Rightarrow> collector option" where
  "built entry =
     (case entry of (metricName, values) \<Rightarrow>
        (case asMap values of
           None \<Rightarrow> None
         | Some params \<Rightarrow>
             (case collectorFromType metricName params of
                Inl p \<Rightarrow> None
              | Inr collector \<Rightarrow> collector)))"

definition builtAll :: "gomap \<Rightarrow> string \<rightharpoonup> collector" where
  "builtAll metrics name =
     (case map_of metrics name of Some values \<Rightarrow> built (name, values) | None \<Rightarrow> None)"

text \<open>
  The service after \<^verbatim>\<open>createMetrics\<close> has run on the default settings, with a library that
  accepts every collector: the state that the concrete examples start from.
\<close>

definition ready :: state where
  "ready = stateOf (createMetrics (\<lambda>c. True) Settings PrometheusService)"

text \<open>
  The label values that \<^verbatim>\<open>traceSpanFinished\<close> reads from an event: the tuple of the request
  counters and histograms, and the tuple of the error counter.
\<close>

definition spanKey :: "'p payloadApi \<Rightarrow> 'p \<Rightarrow> string list" where
  "spanKey api payload =
     [String api (Get api (Get api payload ''action'') ''name''),
      String api (Get api (Get api payload ''service'') ''name''),
      String api (Get api payload ''nodeID'')]"

definition errorKey :: "'p payloadApi \<Rightarrow> 'p \<Rightarrow> string list" where
  "errorKey api payload =
     spanKey api payload @ [String api (Get api (Get api payload ''error'') ''message'')]"

text \<open>The count and the observations of a child; a child that does not exist yet has none.\<close>

definition count :: "('k \<rightharpoonup> nat) \<Rightarrow> 'k \<Rightarrow> nat" where
  "count children key = (case children key of None \<Rightarrow> 0 | Some n \<Rightarrow> n)"

definition observed :: "('k \<rightharpoonup> real list) \<Rightarrow> 'k \<Rightarrow> real list" where
  "observed children key = (case children key of None \<Rightarrow> [] | Some obs \<Rightarrow> obs)"

text \<open>
  What the topology handler writes for one record: the label values and the value of the node
  gauge, and the label values and the endpoint count of a service, action or event record.
\<close>

definition nodeKey :: "'p payloadApi \<Rightarrow> gomap \<Rightarrow> string list" where
  "nodeKey api item = map snd (nodeLabels api (New api (IMap item)))"

definition nodeValue :: "'p payloadApi \<Rightarrow> gomap \<Rightarrow> real" where
  "nodeValue api item = (if Bool api (Get api (New api (IMap item)) ''available'') then 1 else 0)"

definition endpointsKey :: "string list \<Rightarrow> gomap \<Rightarrow> string list" where
  "endpointsKey fieldNames item = map (\<lambda>f. the (asString (lookup item f))) fieldNames"

definition endpointsCount :: "gomap \<Rightarrow> real" where
  "endpointsCount item = real (length (the (asMaps (lookup item ''endpoints''))))"

text \<open>
  A record on which the loop body of the services, actions or events does not panic: the
  fields that become labels are strings, and \<^verbatim>\<open>endpoints\<close> is a slice of maps.
\<close>

definition wellFormed :: "string list \<Rightarrow> gomap \<Rightarrow> bool" where
  "wellFormed fieldNames item =
     (list_all (\<lambda>f. asString (lookup item f) \<noteq> None) fieldNames \<and>
      asMaps (lookup item ''endpoints'') \<noteq> None)"

text \<open>The records of one result of the fan-out call.\<close>

definition records :: "'p payloadApi \<Rightarrow> (string \<rightharpoonup> 'p) \<Rightarrow> string \<Rightarrow> gomap list" where
  "records api results name = (case results name of Some r \<Rightarrow> MapArray api r | None \<Rightarrow> [])"

text \<open>A fully gathered snapshot: the four results are there, and their records are well formed.\<close>

definition gathered :: "'p payloadApi \<Rightarrow> (string \<rightharpoonup> 'p) \<Rightarrow> bool" where
  "gathered api results =
     (results ''nodes'' \<noteq> None \<and> results ''services'' \<noteq> None \<and>
      results ''actions'' \<noteq> None \<and> results ''events'' \<noteq> None \<and>
      list_all (wellFormed [''name'', ''version'']) (records api results ''services'') \<and>
      list_all (wellFormed [''name'']) (records api results ''actions'') \<and>
      list_all (wellFormed [''name'', ''group'']) (records api results ''events''))"

text \<open>
  The eight gauges of the topology handler are in the map of collectors, with the kinds and
  label names that the default settings give them, and the metrics are created.
\<close>

definition isGauge :: "state \<Rightarrow> string \<Rightarrow> bool" where
  "isGauge s name = (case collectors s name of Some (Gauge opts v) \<Rightarrow> True | _ \<Rightarrow> False)"

definition isGaugeVec :: "state \<Rightarrow> string \<Rightarrow> string list \<Rightarrow> bool" where
  "isGaugeVec s name labelNames =
     (case collectors s name of
        Some (GaugeVec opts names children) \<Rightarrow> names = labelNames
      | _ \<Rightarrow> False)"

definition topologyCollectors :: "state \<Rightarrow> bool" where
  "topologyCollectors s =
     (metricsCreated s \<and>
      isGauge s ''moleculer_nodes_total'' \<and>
      isGaugeVec s ''moleculer_nodes'' [''nodeID'', ''type'', ''version'', ''langVersion''] \<and>
      isGauge s ''moleculer_services_total'' \<and>
      isGaugeVec s ''moleculer_service_endpoints_total'' [''service'', ''version''] \<and>
      isGauge s ''moleculer_actions_total'' \<and>
      isGaugeVec s ''moleculer_action_endpoints_total'' [''action''] \<and>
      isGauge s ''moleculer_events_total'' \<and>
      isGaugeVec s ''moleculer_event_endpoints_total'' [''event'', ''group''])"

text \<open>
  The children of a gauge \<^verbatim>\<open>Vec\<close> after a loop of \<^verbatim>\<open>Set\<close> calls, one per record: each record
  writes its value under its label values, in the order of the list.
\<close>

definition setAll :: "('r \<Rightarrow> 'k) \<Rightarrow> ('r \<Rightarrow> 'v) \<Rightarrow> 'r list \<Rightarrow> ('k \<rightharpoonup> 'v) \<Rightarrow> ('k \<rightharpoonup> 'v)" where
  "setAll keyOf valueOf rs children = foldl (\<lambda>ch r. ch(keyOf r \<mapsto> valueOf r)) children rs"

text \<open>An event of a failed request, for the concrete examples.\<close>

definition failedSpan :: iface where
  "failedSpan =
     IMap [(''service'', IMap [(''name'', IString ''music'')]),
           (''action'', IMap [(''name'', IString ''start'')]),
           (''nodeID'', IString ''N1''),
           (''duration'', IFloat 12.5),
           (''error'', IMap [(''message'', IString ''boom'')])]"

text \<open>
  The last record of a list that carries the label values of \<open>item\<close>: its \<^verbatim>\<open>Set\<close> is the one that
  stands after the loop. It is \<open>item\<close> itself when the label values of the records differ.
\<close>

definition lastWith :: "('r \<Rightarrow> 'k) \<Rightarrow> 'r list \<Rightarrow> 'r \<Rightarrow> 'r" where
  "lastWith keyOf rs item = last (filter (\<lambda>r. keyOf r = keyOf item) rs)"

text \<open>
  Two results of the fan-out call, for the concrete examples: a cluster of two nodes with one
  service of three endpoints and one event of two endpoints, and the same cluster after node
  \<^verbatim>\<open>N2\<close> has left.
\<close>

definition node :: "string \<Rightarrow> gomap" where
  "node nodeID =
     [(''id'', IString nodeID), (''available'', IBool True),
      (''client'', IMap [(''type'', IString ''go''), (''version'', IString ''0.1.0''),
                         (''langVersion'', IString ''1.12'')])]"

definition snapshot :: "string \<rightharpoonup> iface" where
  "snapshot =
     [''nodes'' \<mapsto> IMaps [node ''N1'', node ''N2''],
      ''services'' \<mapsto>
         IMaps [[(''name'', IString ''music''), (''version'', IString ''1''),
                 (''endpoints'', IMaps [[], [], []])]],
      ''actions'' \<mapsto> IMaps [],
      ''events'' \<mapsto>
         IMaps [[(''name'', IString ''rings''), (''group'', IString ''music''),
                 (''endpoints'', IMaps [[], []])]]]"

definition smaller :: "string \<rightharpoonup> iface" where
  "smaller = snapshot(''nodes'' \<mapsto> IMaps [node ''N1''])"

text \<open>The first of them with a failed sub-query: the services result is an error.\<close>

definition failedSnapshot :: "string \<rightharpoonup> iface" where
  "failedSnapshot = snapshot(''services'' \<mapsto> IError ''request timeout'')"

text \<open>A snapshot with a failed sub-query: one of the four results is an error.\<close>

definition failed :: "'p payloadApi \<Rightarrow> (string \<rightharpoonup> 'p) \<Rightarrow> bool" where
  "failed api results =
     list_ex (\<lambda>name. case results name of Some r \<Rightarrow> IsError api r | None \<Rightarrow> False)
       [''nodes'', ''services'', ''actions'', ''events'']"

section \<open>The collector factory\<close>

lemmas assert_defs = asString_def asStrings_def asFloats_def asMap_def asMaps_def

lemma collectorFromType_no_type:
  "asString (lookup params ''type'') = None \<Longrightarrow>
   collectorFromType metricName params = Inl TypeAssertion"
  by (simp add: collectorFromType_def)

lemma collectorFromType_no_help:
  "asString (lookup params ''help'') = None \<Longrightarrow>
   collectorFromType metricName params = Inl TypeAssertion"
  by (simp add: collectorFromType_def split: option.splits)

lemma collectorFromType_unknown:
  "asString (lookup params ''type'') = Some k \<Longrightarrow> k \<noteq> ''Gauge'' \<Longrightarrow> k \<noteq> ''Counter'' \<Longrightarrow>
   k \<noteq> ''Histogram'' \<Longrightarrow> asString (lookup params ''help'') = Some h \<Longrightarrow>
   collectorFromType metricName params = Inr None"
  by (simp add: collectorFromType_def Let_def)

text \<open>
  C7, as the claim states it, fails: for a kind that is none of the three, with a string
  \<^verbatim>\<open>help\<close>, \<^verbatim>\<open>collectorFromType\<close> does not fail. It returns, and what it returns is nil.
\<close>

theorem collectorFromType_returns_nil:
  "asString (lookup [(''type'', IString ''Summary''), (''help'', IString ''h'')] ''type'')
     = Some ''Summary''
   \<and> asString (lookup [(''type'', IString ''Summary''), (''help'', IString ''h'')] ''help'')
     = Some ''h''
   \<and> collectorFromType ''m'' [(''type'', IString ''Summary''), (''help'', IString ''h'')]
     = Inr None"
  by (simp add: collectorFromType_def lookup_def assert_defs)

text \<open>
  C7, amended. For a spec whose \<^verbatim>\<open>type\<close> is not the string Counter, Gauge or Histogram, or
  whose \<^verbatim>\<open>help\<close> is missing or not a string, \<^verbatim>\<open>collectorFromType\<close> builds no collector. It
  panics on the failed assertion when \<^verbatim>\<open>type\<close> or \<^verbatim>\<open>help\<close> is missing or not a string, and it
  returns nil, without failing, in the case that is left: an unknown kind with a string
  \<^verbatim>\<open>help\<close>. The loop body of \<^verbatim>\<open>createMetrics\<close> for such an entry ends in a panic with nothing
  registered: the panic of the assertion, with the state unchanged, or the panic of
  \<^verbatim>\<open>MustRegister\<close> on the nil collector, with nil stored under the name.
\<close>

theorem collectorFromType_nil_or_panic:
  assumes "asString (lookup params ''type'') \<notin> {Some ''Counter'', Some ''Gauge'', Some ''Histogram''}
           \<or> asString (lookup params ''help'') = None"
  shows "collectorFromType metricName params =
           (if asString (lookup params ''type'') = None \<or>
               asString (lookup params ''help'') = None
            then Inl TypeAssertion else Inr None)
         \<and> createMetric accepts (metricName, IMap params) s =
           (if asString (lookup params ''type'') = None \<or>
               asString (lookup params ''help'') = None
            then Panic TypeAssertion s
            else Panic NilDereference (s\<lparr>collectors := (collectors s)(metricName := None)\<rparr>))"
proof -
  have build: "collectorFromType metricName params =
           (if asString (lookup params ''type'') = None \<or>
               asString (lookup params ''help'') = None
            then Inl TypeAssertion else Inr None)"
  proof (cases "asString (lookup params ''help'')")
    case None
    then show ?thesis by (simp add: collectorFromType_no_help)
  next
    case hasHelp: (Some h)
    show ?thesis
    proof (cases "asString (lookup params ''type'')")
      case None
      then show ?thesis by (simp add: collectorFromType_no_type)
    next
      case (Some k)
      with assms hasHelp have "k \<noteq> ''Gauge''" "k \<noteq> ''Counter''" "k \<noteq> ''Histogram''"
        by simp_all
      with Some hasHelp show ?thesis
        by (simp add: collectorFromType_unknown)
    qed
  qed
  show ?thesis
    unfolding build
    by (simp add: createMetric_def asMap_def MustRegister_def build)
qed

theorem collectorFromType_nil_or_panic_witness:
  "asString (lookup [(''type'', IString ''Summary''), (''help'', IString ''h'')] ''type'')
     \<notin> {Some ''Counter'', Some ''Gauge'', Some ''Histogram''}
   \<and> collectorFromType ''m'' [(''type'', IString ''Summary''), (''help'', IString ''h'')]
       = Inr None
   \<and> createMetric (\<lambda>c. True)
         (''m'', IMap [(''type'', IString ''Summary''), (''help'', IString ''h'')])
         PrometheusService
       = Panic NilDereference PrometheusService
   \<and> collectorFromType ''m'' [(''type'', IString ''Gauge'')] = Inl TypeAssertion
   \<and> createMetric (\<lambda>c. True) (''m'', IMap [(''type'', IString ''Gauge'')]) PrometheusService
       = Panic TypeAssertion PrometheusService"
  using collectorFromType_nil_or_panic
          [where params = "[(''type'', IString ''Summary''), (''help'', IString ''h'')]"
             and metricName = "''m''" and accepts = "\<lambda>c. True" and s = PrometheusService]
        collectorFromType_nil_or_panic
          [where params = "[(''type'', IString ''Gauge'')]"
             and metricName = "''m''" and accepts = "\<lambda>c. True" and s = PrometheusService]
  by (simp add: lookup_def assert_defs PrometheusService_def)

text \<open>
  C8, as the claim states it, fails twice. A spec that carries \<^verbatim>\<open>labelNames\<close> as an empty list of
  strings gets the \<^verbatim>\<open>Vec\<close> variant, since the code tests whether the field is there as a
  \<^verbatim>\<open>[]string\<close>, not whether it is empty. And a scalar histogram whose \<^verbatim>\<open>buckets\<close> are not in
  increasing order is not built with them: the constructor of the library panics.
\<close>

theorem collectorFromType_empty_labelNames:
  "asStrings (lookup [(''type'', IString ''Gauge''), (''help'', IString ''h''),
                      (''labelNames'', IStrings [])] ''labelNames'') = Some []
   \<and> collectorFromType ''m'' [(''type'', IString ''Gauge''), (''help'', IString ''h''),
                              (''labelNames'', IStrings [])]
       = Inr (Some (GaugeVec \<lparr>Name = ''m'', Help = ''h''\<rparr> [] Map.empty))
   \<and> isVec (GaugeVec \<lparr>Name = ''m'', Help = ''h''\<rparr> [] Map.empty)
   \<and> collectorFromType ''m'' [(''type'', IString ''Histogram''), (''help'', IString ''h''),
                              (''buckets'', IFloats [100, 10])]
       = Inl BucketOrder"
  by (simp add: collectorFromType_def NewHistogram_def lookup_def assert_defs)

text \<open>
  C8, amended. For a spec with a string \<^verbatim>\<open>help\<close> and one of the three kinds,
  \<^verbatim>\<open>collectorFromType\<close> panics in one case only: the scalar histogram, which is the one without
  \<^verbatim>\<open>labelNames\<close>, with \<^verbatim>\<open>buckets\<close> that are not in strictly increasing order. In every other case
  it returns a new collector of that kind, name and help. It is the \<^verbatim>\<open>Vec\<close> variant exactly when
  \<^verbatim>\<open>labelNames\<close> is present as a list of strings, with those label names, and the scalar
  variant otherwise. A histogram is built with the \<^verbatim>\<open>buckets\<close> of the spec when they are present
  as a list of floats and with no buckets otherwise, and the library works with its default
  buckets exactly when it was given an empty list.
\<close>

theorem collectorFromType_variant:
  assumes "asString (lookup params ''type'') = Some kind"
    and "kind \<in> {''Gauge'', ''Counter'', ''Histogram''}"
    and "asString (lookup params ''help'') = Some helpText"
  shows "case collectorFromType metricName params of
           Inr (Some c) \<Rightarrow>
             kindOf c = kind \<and> collectorName c = metricName \<and> helpOf c = helpText \<and> fresh c \<and>
             isVec c = (asStrings (lookup params ''labelNames'') \<noteq> None) \<and>
             (isVec c \<longrightarrow> asStrings (lookup params ''labelNames'') = Some (labelNamesOf c)) \<and>
             (kind = ''Histogram'' \<longrightarrow>
                bucketsOf c = (case asFloats (lookup params ''buckets'') of
                                 Some buckets \<Rightarrow> buckets | None \<Rightarrow> []) \<and>
                upperBounds DefBuckets c =
                  (if bucketsOf c = [] then DefBuckets else bucketsOf c) \<and>
                (isVec c \<or> sorted_wrt (<) (bucketsOf c)))
         | Inr None \<Rightarrow> False
         | Inl p \<Rightarrow>
             p = BucketOrder \<and> kind = ''Histogram'' \<and>
             asStrings (lookup params ''labelNames'') = None \<and>
             (case asFloats (lookup params ''buckets'') of
                Some buckets \<Rightarrow> \<not> sorted_wrt (<) buckets
              | None \<Rightarrow> False)"
proof (cases "kind = ''Histogram'' \<and> asStrings (lookup params ''labelNames'') = None")
  case False
  with assms show ?thesis
    by (auto simp: collectorFromType_def Let_def upperBounds_def split: option.splits)
next
  case True
  then have run: "collectorFromType metricName params =
      NewHistogram \<lparr>Name = metricName, Help = helpText,
        Buckets = (case asFloats (lookup params ''buckets'') of
                     Some buckets \<Rightarrow> buckets | None \<Rightarrow> [])\<rparr>"
    using assms by (simp add: collectorFromType_def Let_def)
  show ?thesis
  proof (cases "asFloats (lookup params ''buckets'')")
    case None
    with True show ?thesis
      unfolding run by (simp add: NewHistogram_def upperBounds_def)
  next
    case (Some buckets)
    with True show ?thesis
      unfolding run by (simp add: NewHistogram_def upperBounds_def)
  qed
qed

theorem collectorFromType_variant_witness:
  "asString (lookup [(''type'', IString ''Histogram''), (''help'', IString ''h''),
                     (''buckets'', IFloats [10, 100])] ''type'') = Some ''Histogram''
   \<and> collectorFromType ''m'' [(''type'', IString ''Histogram''), (''help'', IString ''h''),
                              (''buckets'', IFloats [10, 100])]
       = Inr (Some (Histogram \<lparr>Name = ''m'', Help = ''h'', Buckets = [10, 100]\<rparr> []))
   \<and> upperBounds [1, 2]
         (Histogram \<lparr>Name = ''m'', Help = ''h'', Buckets = [10, 100]\<rparr> []) = [10, 100]"
  using collectorFromType_variant
          [where params = "[(''type'', IString ''Histogram''), (''help'', IString ''h''),
                            (''buckets'', IFloats [10, 100])]"
             and kind = "''Histogram''" and helpText = "''h''" and metricName = "''m''"
             and DefBuckets = "[1, 2]"]
  by (simp add: collectorFromType_def NewHistogram_def lookup_def assert_defs upperBounds_def)

text \<open>
  C10. From the default settings, \<^verbatim>\<open>moleculer_all_req_duration_ms\<close> is built as a scalar
  histogram with the thirteen bucket boundaries of the settings, and
  \<^verbatim>\<open>moleculer_req_duration_ms\<close> as a histogram \<^verbatim>\<open>Vec\<close> over action, service and nodeID with no
  buckets, so that the library works with its default buckets.
\<close>

theorem default_histograms:
  "collectorFromType ''moleculer_all_req_duration_ms''
       (the (asMap (lookup metricsSettings ''moleculer_all_req_duration_ms'')))
     = Inr (Some (Histogram
         \<lparr>Name = ''moleculer_all_req_duration_ms'', Help = ''Moleculer all request durations'',
          Buckets = [0.001, 0.01, 0.1, 0.5, 1.0, 10.0, 100.0, 300.0, 500.0, 700.0, 1000.0,
                     5000.0, 10000.0]\<rparr> []))
   \<and> upperBounds DefBuckets (Histogram
         \<lparr>Name = ''moleculer_all_req_duration_ms'', Help = ''Moleculer all request durations'',
          Buckets = [0.001, 0.01, 0.1, 0.5, 1.0, 10.0, 100.0, 300.0, 500.0, 700.0, 1000.0,
                     5000.0, 10000.0]\<rparr> [])
     = [0.001, 0.01, 0.1, 0.5, 1.0, 10.0, 100.0, 300.0, 500.0, 700.0, 1000.0, 5000.0, 10000.0]
   \<and> collectorFromType ''moleculer_req_duration_ms''
       (the (asMap (lookup metricsSettings ''moleculer_req_duration_ms'')))
     = Inr (Some (HistogramVec
         \<lparr>Name = ''moleculer_req_duration_ms'', Help = ''Moleculer request durations'',
          Buckets = []\<rparr> [''action'', ''service'', ''nodeID''] Map.empty))
   \<and> upperBounds DefBuckets (HistogramVec
         \<lparr>Name = ''moleculer_req_duration_ms'', Help = ''Moleculer request durations'',
          Buckets = []\<rparr> [''action'', ''service'', ''nodeID''] Map.empty) = DefBuckets"
  by (simp add: metricsSettings_def lookup_def collectorFromType_def NewHistogram_def
        assert_defs upperBounds_def)

section \<open>The registry\<close>

lemma built_name: "built (n, v) = Some c \<Longrightarrow> collectorName c = n"
  by (auto simp: built_def collectorFromType_def NewHistogram_def Let_def
        split: option.splits sum.splits if_splits)

lemma createMetric_built:
  assumes "built (n, v) = Some c" and "accepts c" and "n \<notin> set (registered s)"
  shows "createMetric accepts (n, v) s =
           Return (s\<lparr>collectors := (collectors s)(n \<mapsto> c), registered := registered s @ [n]\<rparr>)"
proof -
  from assms(1) obtain params where v: "asMap v = Some params"
    and c: "collectorFromType n params = Inr (Some c)"
    by (auto simp: built_def split: option.splits sum.splits)
  from assms(1) have "collectorName c = n" by (rule built_name)
  with v c assms(2,3) show ?thesis
    by (simp add: createMetric_def MustRegister_def)
qed

lemma steps_createMetric:
  "distinct (map fst ms) \<Longrightarrow>
   \<forall>e\<in>set ms. (case built e of Some c \<Rightarrow> accepts c | None \<Rightarrow> False) \<Longrightarrow>
   fst ` set ms \<inter> set (registered s) = {} \<Longrightarrow>
   steps (map (createMetric accepts) ms) s =
     Return (s\<lparr>collectors := collectors s ++ builtAll ms,
              registered := registered s @ map fst ms\<rparr>)"
proof (induction ms arbitrary: s)
  case Nil
  have "builtAll [] = Map.empty" by (simp add: builtAll_def fun_eq_iff)
  then show ?case by simp
next
  case (Cons e ms)
  obtain n v where e: "e = (n, v)" by (cases e)
  from Cons.prems(2) e obtain c where c: "built (n, v) = Some c" and acc: "accepts c"
    by (auto split: option.splits)
  from Cons.prems(3) e have fresh: "n \<notin> set (registered s)" by auto
  let ?s1 = "s\<lparr>collectors := (collectors s)(n \<mapsto> c), registered := registered s @ [n]\<rparr>"
  have step: "createMetric accepts e s = Return ?s1"
    using createMetric_built [where accepts = accepts, OF c acc fresh] e by simp
  from Cons.prems(1) e have d: "distinct (map fst ms)" and nn: "n \<notin> fst ` set ms" by auto
  from Cons.prems(3) nn have disj: "fst ` set ms \<inter> set (registered ?s1) = {}" by auto
  from Cons.prems(2) have all: "\<forall>e\<in>set ms. (case built e of Some c \<Rightarrow> accepts c | None \<Rightarrow> False)"
    by simp
  have maps: "(collectors s)(n \<mapsto> c) ++ builtAll ms = collectors s ++ builtAll (e # ms)"
  proof
    fix k
    from nn have "map_of ms n = None" by (simp add: map_of_eq_None_iff)
    then show "((collectors s)(n \<mapsto> c) ++ builtAll ms) k = (collectors s ++ builtAll (e # ms)) k"
      using c e by (auto simp: map_add_def builtAll_def split: option.splits)
  qed
  have c1: "collectors ?s1 = (collectors s)(n \<mapsto> c)" by simp
  have r1: "registered ?s1 @ map fst ms = registered s @ map fst (e # ms)" using e by simp
  have final: "?s1\<lparr>collectors := collectors ?s1 ++ builtAll ms,
                    registered := registered ?s1 @ map fst ms\<rparr> =
               s\<lparr>collectors := collectors s ++ builtAll (e # ms),
                 registered := registered s @ map fst (e # ms)\<rparr>"
    unfolding c1 r1 maps by simp
  have "steps (map (createMetric accepts) (e # ms)) s =
        steps (map (createMetric accepts) ms) ?s1"
    using step by simp
  also have "\<dots> = Return (?s1\<lparr>collectors := collectors ?s1 ++ builtAll ms,
                              registered := registered ?s1 @ map fst ms\<rparr>)"
    by (rule Cons.IH [OF d all disj])
  finally show ?case unfolding final .
qed

lemma createMetrics_run:
  assumes "exists settings ''metrics''"
    and "asMap (lookup settings ''metrics'') = Some metrics"
    and "distinct (map fst metrics)"
    and "\<forall>e\<in>set metrics. (case built e of Some c \<Rightarrow> accepts c | None \<Rightarrow> False)"
    and "fst ` set metrics \<inter> set (registered s) = {}"
  shows "createMetrics accepts settings s =
          GateSend (s\<lparr>collectors := collectors s ++ builtAll metrics,
                      registered := registered s @ map fst metrics, metricsCreated := True\<rparr>)"
  using assms(1,2) steps_createMetric [OF assms(3,4,5)]
  by (simp add: createMetrics_def)

text \<open>
  C3. When the \<^verbatim>\<open>metrics\<close> setting is a map with distinct names in which every entry builds
  a collector that the library accepts, and none of the names is registered yet,
  \<^verbatim>\<open>createMetrics\<close>, started with an empty map of collectors, builds one collector per entry,
  stores it under the entry's name, registers it, sets the flag and reaches the send on the
  gate. A lookup in the map of collectors then finds a collector for exactly the configured
  names.
\<close>

theorem createMetrics_registry:
  assumes "exists settings ''metrics''"
    and "asMap (lookup settings ''metrics'') = Some metrics"
    and "distinct (map fst metrics)"
    and "\<forall>e\<in>set metrics. (case built e of Some c \<Rightarrow> accepts c | None \<Rightarrow> False)"
    and "fst ` set metrics \<inter> set (registered s) = {}"
    and "collectors s = Map.empty"
  shows "case createMetrics accepts settings s of
           GateSend s' \<Rightarrow>
             metricsCreated s' \<and>
             (\<forall>name. (collectors s' name \<noteq> None) = (name \<in> fst ` set metrics)) \<and>
             (\<forall>e\<in>set metrics. collectors s' (fst e) = built e) \<and>
             registered s' = registered s @ map fst metrics
         | _ \<Rightarrow> False"
proof -
  have run: "createMetrics accepts settings s =
          GateSend (s\<lparr>collectors := builtAll metrics,
                      registered := registered s @ map fst metrics, metricsCreated := True\<rparr>)"
    using createMetrics_run [OF assms(1-5)] assms(6) by simp
  have dom: "(builtAll metrics name \<noteq> None) = (name \<in> fst ` set metrics)" for name
  proof (cases "map_of metrics name")
    case None
    then have "name \<notin> fst ` set metrics" by (simp add: map_of_eq_None_iff)
    with None show ?thesis by (simp add: builtAll_def)
  next
    case (Some v)
    then have mem: "(name, v) \<in> set metrics" by (rule map_of_SomeD)
    with assms(4) have "built (name, v) \<noteq> None" by (auto split: option.splits)
    with Some mem show ?thesis by (force simp: builtAll_def)
  qed
  have each: "builtAll metrics (fst e) = built e" if "e \<in> set metrics" for e
  proof -
    from that assms(3) have "map_of metrics (fst e) = Some (snd e)" by simp
    then show ?thesis by (simp add: builtAll_def)
  qed
  show ?thesis
    unfolding run using dom each by simp
qed


lemma settings_metrics:
  "exists Settings ''metrics''" "asMap (lookup Settings ''metrics'') = Some metricsSettings"
  by (simp_all add: Settings_def exists_def lookup_def asMap_def)

lemma metricsSettings_distinct: "distinct (map fst metricsSettings)"
  by (simp add: metricsSettings_def)

lemma metricsSettings_built:
  "\<forall>e\<in>set metricsSettings. (case built e of Some c \<Rightarrow> (\<lambda>c. True) c | None \<Rightarrow> False)"
  by (simp add: metricsSettings_def built_def collectorFromType_def NewHistogram_def
        lookup_def assert_defs)

lemma ready_eq:
  "createMetrics (\<lambda>c. True) Settings PrometheusService =
     GateSend \<lparr>collectors = builtAll metricsSettings, metricsCreated = True,
              registered = map fst metricsSettings, errorLog = []\<rparr>"
  using createMetrics_run [OF settings_metrics metricsSettings_distinct metricsSettings_built,
          of PrometheusService]
  by (simp add: PrometheusService_def)

theorem createMetrics_registry_witness:
  "exists Settings ''metrics''
   \<and> asMap (lookup Settings ''metrics'') = Some metricsSettings
   \<and> distinct (map fst metricsSettings)
   \<and> (case createMetrics (\<lambda>c. True) Settings PrometheusService of
         GateSend s' \<Rightarrow>
           metricsCreated s' \<and>
           collectors s' ''moleculer_nodes_total''
             = Some (Gauge \<lparr>Name = ''moleculer_nodes_total'', Help = ''Moleculer nodes count''\<rparr> 0) \<and>
           collectors s' ''moleculer_unknown'' = None \<and>
           length (registered s') = 14
       | _ \<Rightarrow> False)"
proof -
  have empty: "fst ` set metricsSettings \<inter> set (registered PrometheusService) = {}"
    and none: "collectors PrometheusService = Map.empty"
    by (simp_all add: PrometheusService_def)
  have nodes: "(''moleculer_nodes_total'',
         IMap [(''type'', IString ''Gauge''), (''help'', IString ''Moleculer nodes count'')]) \<in> set metricsSettings"
    by (simp add: metricsSettings_def)
  have unknown: "''moleculer_unknown'' \<notin> fst ` set metricsSettings"
    by (simp add: metricsSettings_def)
  have len: "length (map fst metricsSettings) = 14" by (simp add: metricsSettings_def)
  have b: "built (''moleculer_nodes_total'',
         IMap [(''type'', IString ''Gauge''), (''help'', IString ''Moleculer nodes count'')])
      = Some (Gauge \<lparr>Name = ''moleculer_nodes_total'', Help = ''Moleculer nodes count''\<rparr> 0)"
    by (simp add: built_def collectorFromType_def lookup_def assert_defs)
  from createMetrics_registry
         [OF settings_metrics metricsSettings_distinct metricsSettings_built empty none]
       nodes unknown len b
  show ?thesis
    using settings_metrics metricsSettings_distinct
    by (auto simp: PrometheusService_def split: outcome.splits)
qed


lemma ready_state:
  "ready = \<lparr>collectors = builtAll metricsSettings, metricsCreated = True,
            registered = map fst metricsSettings, errorLog = []\<rparr>"
  by (simp add: ready_def ready_eq)

lemma ready_collectors:
  "collectors ready ''moleculer_nodes_total''
     = Some (Gauge \<lparr>Name = ''moleculer_nodes_total'', Help = ''Moleculer nodes count''\<rparr> 0)"
  "collectors ready ''moleculer_services_total''
     = Some (Gauge \<lparr>Name = ''moleculer_services_total'', Help = ''Moleculer services count''\<rparr> 0)"
  "collectors ready ''moleculer_actions_total''
     = Some (Gauge \<lparr>Name = ''moleculer_actions_total'', Help = ''Moleculer actions count''\<rparr> 0)"
  "collectors ready ''moleculer_events_total''
     = Some (Gauge \<lparr>Name = ''moleculer_events_total'',
                     Help = ''Moleculer events subscriptions''\<rparr> 0)"
  "collectors ready ''moleculer_nodes''
     = Some (GaugeVec \<lparr>Name = ''moleculer_nodes'', Help = ''Moleculer node list''\<rparr>
               [''nodeID'', ''type'', ''version'', ''langVersion''] Map.empty)"
  "collectors ready ''moleculer_action_endpoints_total''
     = Some (GaugeVec \<lparr>Name = ''moleculer_action_endpoints_total'',
                        Help = ''Moleculer action endpoints''\<rparr> [''action''] Map.empty)"
  "collectors ready ''moleculer_service_endpoints_total''
     = Some (GaugeVec \<lparr>Name = ''moleculer_service_endpoints_total'',
                        Help = ''Moleculer service endpoints''\<rparr>
               [''service'', ''version''] Map.empty)"
  "collectors ready ''moleculer_event_endpoints_total''
     = Some (GaugeVec \<lparr>Name = ''moleculer_event_endpoints_total'',
                        Help = ''Moleculer event endpoints''\<rparr> [''event'', ''group''] Map.empty)"
  "collectors ready ''moleculer_all_req_total''
     = Some (Counter \<lparr>Name = ''moleculer_all_req_total'',
                       Help = ''Moleculer all actions request count''\<rparr> 0)"
  "collectors ready ''moleculer_req_total''
     = Some (CounterVec \<lparr>Name = ''moleculer_req_total'',
                          Help = ''Moleculer action request count''\<rparr>
               [''action'', ''service'', ''nodeID''] Map.empty)"
  "collectors ready ''moleculer_all_req_errors_total''
     = Some (Counter \<lparr>Name = ''moleculer_all_req_errors_total'',
                       Help = ''Moleculer all request error count''\<rparr> 0)"
  "collectors ready ''moleculer_req_errors_total''
     = Some (CounterVec \<lparr>Name = ''moleculer_req_errors_total'',
                          Help = ''Moleculer request error count''\<rparr>
               [''action'', ''service'', ''nodeID'', ''errorMessage''] Map.empty)"
  "collectors ready ''moleculer_all_req_duration_ms''
     = Some (Histogram \<lparr>Name = ''moleculer_all_req_duration_ms'',
                         Help = ''Moleculer all request durations'',
                         Buckets = [0.001, 0.01, 0.1, 0.5, 1.0, 10.0, 100.0, 300.0, 500.0,
                                    700.0, 1000.0, 5000.0, 10000.0]\<rparr> [])"
  "collectors ready ''moleculer_req_duration_ms''
     = Some (HistogramVec \<lparr>Name = ''moleculer_req_duration_ms'',
                            Help = ''Moleculer request durations'', Buckets = []\<rparr>
               [''action'', ''service'', ''nodeID''] Map.empty)"
  by (simp_all add: ready_state builtAll_def metricsSettings_def built_def
        collectorFromType_def NewHistogram_def lookup_def assert_defs)


section \<open>Stores\<close>

lemma collectors_store:
  "collectors (store name c s) m = (if m = name then Some c else collectors s m)"
  by (simp add: store_def)

lemma store_other:
  "metricsCreated (store name c s) = metricsCreated s"
  "registered (store name c s) = registered s"
  "errorLog (store name c s) = errorLog s"
  by (simp_all add: store_def)

lemma store_store: "store name c (store name c' s) = store name c s"
  by (simp add: store_def)

lemma store_idem: "collectors s name = Some c \<Longrightarrow> store name c s = s"
  by (simp add: store_def fun_upd_idem)

lemma state_eqI:
  fixes s t :: state
  assumes "\<And>n. collectors s n = collectors t n" "metricsCreated s = metricsCreated t"
    "registered s = registered t" "errorLog s = errorLog t"
  shows "s = t"
proof -
  from assms(1) have "collectors s = collectors t" by (rule ext)
  with assms(2-) show ?thesis by simp
qed

section \<open>Trace events\<close>

lemma counterInc_Counter:
  "collectors s name = Some (Counter opts n) \<Longrightarrow>
   counterInc name s = Return (store name (Counter opts (n + 1)) s)"
  by (simp add: counterInc_def)

lemma counterVecInc_CounterVec:
  "collectors s name = Some (CounterVec opts labelNames children) \<Longrightarrow>
   labelValues labelNames labels = Some key \<Longrightarrow>
   counterVecInc name labels s =
     Return (store name (CounterVec opts labelNames (children(key \<mapsto> count children key + 1))) s)"
  by (simp add: counterVecInc_def count_def split: option.splits)

lemma histogramObserve_Histogram:
  "collectors s name = Some (Histogram opts obs) \<Longrightarrow>
   histogramObserve name v s = Return (store name (Histogram opts (obs @ [v])) s)"
  by (simp add: histogramObserve_def)

lemma histogramVecObserve_HistogramVec:
  "collectors s name = Some (HistogramVec opts labelNames children) \<Longrightarrow>
   labelValues labelNames labels = Some key \<Longrightarrow>
   histogramVecObserve name labels v s =
     Return (store name
       (HistogramVec opts labelNames (children(key \<mapsto> observed children key @ [v]))) s)"
  by (simp add: histogramVecObserve_def observed_def split: option.splits)

lemma labelValues3:
  "labelValues [''action'', ''service'', ''nodeID'']
     [(''action'', a), (''service'', b), (''nodeID'', c)] = Some [a, b, c]"
  by (simp add: labelValues_def)

lemma labelValues4:
  "labelValues [''action'', ''service'', ''nodeID'', ''errorMessage'']
     [(''action'', a), (''service'', b), (''nodeID'', c), (''errorMessage'', d)] = Some [a, b, c, d]"
  by (simp add: labelValues_def)

text \<open>
  C1. When the six collectors of the trace handler are in the map with the kinds and label
  names of the default settings, \<^verbatim>\<open>traceSpanFinished\<close> returns, for every event: the two request
  counters are one higher (the labelled one under the event's action, service and node), the
  event's duration is appended to the observations of both histograms, and the two error
  counters are one higher exactly when the payload has an \<^verbatim>\<open>error\<close>, and unchanged otherwise.
  Nothing else changes.
\<close>

theorem traceSpanFinished_updates:
  assumes a1: "collectors s ''moleculer_all_req_total'' = Some (Counter o1 n1)"
    and a2: "collectors s ''moleculer_req_total''
           = Some (CounterVec o2 [''action'', ''service'', ''nodeID''] c2)"
    and a3: "collectors s ''moleculer_all_req_duration_ms'' = Some (Histogram o3 h3)"
    and a4: "collectors s ''moleculer_req_duration_ms''
           = Some (HistogramVec o4 [''action'', ''service'', ''nodeID''] c4)"
    and a5: "collectors s ''moleculer_all_req_errors_total'' = Some (Counter o5 n5)"
    and a6: "collectors s ''moleculer_req_errors_total''
           = Some (CounterVec o6 [''action'', ''service'', ''nodeID'', ''errorMessage''] c6)"
  shows "case traceSpanFinished api payload s of
           Return s' \<Rightarrow>
             collectors s' ''moleculer_all_req_total'' = Some (Counter o1 (n1 + 1)) \<and>
             collectors s' ''moleculer_req_total''
               = Some (CounterVec o2 [''action'', ''service'', ''nodeID'']
                   (c2(spanKey api payload \<mapsto> count c2 (spanKey api payload) + 1))) \<and>
             collectors s' ''moleculer_all_req_duration_ms''
               = Some (Histogram o3 (h3 @ [Float api (Get api payload ''duration'')])) \<and>
             collectors s' ''moleculer_req_duration_ms''
               = Some (HistogramVec o4 [''action'', ''service'', ''nodeID'']
                   (c4(spanKey api payload \<mapsto>
                      observed c4 (spanKey api payload) @
                        [Float api (Get api payload ''duration'')]))) \<and>
             (if Exists api (Get api payload ''error'') then
                collectors s' ''moleculer_all_req_errors_total'' = Some (Counter o5 (n5 + 1)) \<and>
                collectors s' ''moleculer_req_errors_total''
                  = Some (CounterVec o6 [''action'', ''service'', ''nodeID'', ''errorMessage'']
                      (c6(errorKey api payload \<mapsto> count c6 (errorKey api payload) + 1)))
              else
                collectors s' ''moleculer_all_req_errors_total'' = Some (Counter o5 n5) \<and>
                collectors s' ''moleculer_req_errors_total''
                  = Some (CounterVec o6 [''action'', ''service'', ''nodeID'', ''errorMessage'']
                      c6)) \<and>
             (\<forall>name. name \<notin> {''moleculer_all_req_total'', ''moleculer_req_total'',
                              ''moleculer_all_req_duration_ms'', ''moleculer_req_duration_ms'',
                              ''moleculer_all_req_errors_total'', ''moleculer_req_errors_total''}
                \<longrightarrow> collectors s' name = collectors s name) \<and>
             metricsCreated s' = metricsCreated s \<and> registered s' = registered s
         | _ \<Rightarrow> False"
  by (simp add: traceSpanFinished_def Let_def spanKey_def errorKey_def
        counterInc_Counter counterVecInc_CounterVec histogramObserve_Histogram
        histogramVecObserve_HistogramVec labelValues3 labelValues4 collectors_store store_other
        a1 a2 a3 a4 a5 a6)


lemma failedSpan_fields:
  "spanKey rawPayload failedSpan = [''start'', ''music'', ''N1'']"
  "errorKey rawPayload failedSpan = [''start'', ''music'', ''N1'', ''boom'']"
  "Float rawPayload (Get rawPayload failedSpan ''duration'') = 12.5"
  "Exists rawPayload (Get rawPayload failedSpan ''error'')"
  by (simp_all add: spanKey_def errorKey_def rawPayload_def failedSpan_def lookup_def)

theorem traceSpanFinished_updates_witness:
  "collectors ready ''moleculer_all_req_total''
     = Some (Counter \<lparr>Name = ''moleculer_all_req_total'',
                       Help = ''Moleculer all actions request count''\<rparr> 0)
   \<and> (case traceSpanFinished rawPayload failedSpan ready of
         Return s' \<Rightarrow>
           collectors s' ''moleculer_all_req_total''
             = Some (Counter \<lparr>Name = ''moleculer_all_req_total'',
                               Help = ''Moleculer all actions request count''\<rparr> 1) \<and>
           collectors s' ''moleculer_req_total''
             = Some (CounterVec \<lparr>Name = ''moleculer_req_total'',
                                  Help = ''Moleculer action request count''\<rparr>
                       [''action'', ''service'', ''nodeID'']
                       [[''start'', ''music'', ''N1''] \<mapsto> 1]) \<and>
           collectors s' ''moleculer_all_req_errors_total''
             = Some (Counter \<lparr>Name = ''moleculer_all_req_errors_total'',
                               Help = ''Moleculer all request error count''\<rparr> 1) \<and>
           collectors s' ''moleculer_req_errors_total''
             = Some (CounterVec \<lparr>Name = ''moleculer_req_errors_total'',
                                  Help = ''Moleculer request error count''\<rparr>
                       [''action'', ''service'', ''nodeID'', ''errorMessage'']
                       [[''start'', ''music'', ''N1'', ''boom''] \<mapsto> 1])
       | _ \<Rightarrow> False)"
  using traceSpanFinished_updates
          [OF ready_collectors(9) ready_collectors(10) ready_collectors(13)
              ready_collectors(14) ready_collectors(11) ready_collectors(12),
           of rawPayload failedSpan]
  by (simp add: ready_collectors failedSpan_fields count_def split: outcome.splits)


section \<open>Topology events\<close>

lemma setAll_Nil: "setAll kf vf [] ch = ch"
  by (simp add: setAll_def)

lemma setAll_Cons: "setAll kf vf (r # rs) ch = setAll kf vf rs (ch(kf r \<mapsto> vf r))"
  by (simp add: setAll_def)

lemma setAll_apply:
  "setAll kf vf rs ch k =
     (if k \<in> kf ` set rs then Some (vf (last (filter (\<lambda>r. kf r = k) rs))) else ch k)"
proof (induction rs arbitrary: ch)
  case Nil
  then show ?case by (simp add: setAll_Nil)
next
  case (Cons r rs)
  show ?case
  proof (cases "k \<in> kf ` set rs")
    case True
    then have "filter (\<lambda>r. kf r = k) rs \<noteq> []" by (auto simp: filter_empty_conv)
    with True show ?thesis by (simp add: setAll_Cons Cons.IH)
  next
    case False
    then have none: "filter (\<lambda>r. kf r = k) rs = []" by (auto simp: filter_empty_conv)
    show ?thesis
    proof (cases "kf r = k")
      case True
      with False none show ?thesis by (simp add: setAll_Cons Cons.IH)
    next
      case ne: False
      with False none show ?thesis by (simp add: setAll_Cons Cons.IH)
    qed
  qed
qed

lemma setAll_twice: "setAll kf vf rs (setAll kf vf rs ch) = setAll kf vf rs ch"
  by (rule ext) (simp add: setAll_apply)

lemma gaugeSet_Gauge:
  "collectors s name = Some (Gauge opts old) \<Longrightarrow>
   gaugeSet name v s = Return (store name (Gauge opts v) s)"
  by (simp add: gaugeSet_def)

lemma assertGaugeVec_GaugeVec:
  "collectors s name = Some (GaugeVec opts labelNames children) \<Longrightarrow>
   assertGaugeVec name s = Return s"
  by (simp add: assertGaugeVec_def)

lemma gaugeVecSet_GaugeVec:
  "collectors s name = Some (GaugeVec opts labelNames children) \<Longrightarrow>
   labelValues labelNames labels = Some key \<Longrightarrow>
   gaugeVecSet name labels v s =
     Return (store name (GaugeVec opts labelNames (children(key \<mapsto> v))) s)"
  by (simp add: gaugeVecSet_def)

lemma gaugeVecWith_GaugeVec:
  "collectors s name = Some (GaugeVec opts labelNames children) \<Longrightarrow>
   labelValues labelNames labels = Some key \<Longrightarrow>
   gaugeVecWith name labels s =
     Return (store name (GaugeVec opts labelNames
       (children(key \<mapsto> (case children key of None \<Rightarrow> 0 | Some v \<Rightarrow> v)))) s)"
  by (simp add: gaugeVecWith_def)

lemma steps_setAll:
  assumes body: "\<And>r s ch. r \<in> set rs \<Longrightarrow> collectors s name = Some (GaugeVec opts lns ch) \<Longrightarrow>
            body r s = Return (store name (GaugeVec opts lns (ch(kf r \<mapsto> vf r))) s)"
  shows "collectors s name = Some (GaugeVec opts lns ch) \<Longrightarrow>
         steps (map body rs) s = Return (store name (GaugeVec opts lns (setAll kf vf rs ch)) s)"
  using body
proof (induction rs arbitrary: s ch)
  case Nil
  then show ?case by (simp add: setAll_Nil store_idem)
next
  case (Cons r rs)
  let ?s1 = "store name (GaugeVec opts lns (ch(kf r \<mapsto> vf r))) s"
  have first: "body r s = Return ?s1"
    by (rule Cons.prems(2)) (simp_all add: Cons.prems(1))
  have c1: "collectors ?s1 name = Some (GaugeVec opts lns (ch(kf r \<mapsto> vf r)))"
    by (simp add: collectors_store)
  have rest: "steps (map body rs) ?s1 =
        Return (store name (GaugeVec opts lns (setAll kf vf rs (ch(kf r \<mapsto> vf r)))) ?s1)"
  proof (rule Cons.IH [OF c1])
    fix r' and s' :: state and ch'
    assume "r' \<in> set rs" and "collectors s' name = Some (GaugeVec opts lns ch')"
    then show "body r' s' = Return (store name (GaugeVec opts lns (ch'(kf r' \<mapsto> vf r'))) s')"
      by (intro Cons.prems(2)) simp_all
  qed
  show ?case using first rest by (simp add: setAll_Cons store_store)
qed

lemma updateGroup_run:
  assumes t: "collectors s totalName = Some (Gauge ot old)"
    and f: "collectors s family = Some (GaugeVec opts lns ch)"
    and body: "\<And>r s ch. r \<in> set (MapArray api p) \<Longrightarrow>
            collectors s family = Some (GaugeVec opts lns ch) \<Longrightarrow>
            body r s = Return (store family (GaugeVec opts lns (ch(kf r \<mapsto> vf r))) s)"
  shows "updateGroup api (Some p) totalName family body s =
           Return (store family (GaugeVec opts lns (setAll kf vf (MapArray api p) ch))
                    (store totalName (Gauge ot (real (length (MapArray api p)))) s))"
proof -
  let ?s1 = "store totalName (Gauge ot (real (length (MapArray api p)))) s"
  from t f have ne: "family \<noteq> totalName" by auto
  with f have f1: "collectors ?s1 family = Some (GaugeVec opts lns ch)"
    by (simp add: collectors_store)
  show ?thesis
    using gaugeSet_Gauge [OF t] assertGaugeVec_GaugeVec [OF f1]
      steps_setAll [of "MapArray api p" family opts lns body kf vf, OF body f1]
    by (simp add: updateGroup_def Let_def)
qed

lemma setNode_run:
  "collectors s ''moleculer_nodes''
     = Some (GaugeVec opts [''nodeID'', ''type'', ''version'', ''langVersion''] ch) \<Longrightarrow>
   setNode api item s =
     Return (store ''moleculer_nodes''
       (GaugeVec opts [''nodeID'', ''type'', ''version'', ''langVersion'']
          (ch(nodeKey api item \<mapsto> nodeValue api item))) s)"
  by (simp add: setNode_def Let_def gaugeVecSet_def nodeLabels_def labelValues_def nodeKey_def
        nodeValue_def)

lemma setEndpoints_run:
  assumes wf: "wellFormed (map snd keys) item"
    and d: "distinct (map fst keys)"
    and c: "collectors s name = Some (GaugeVec opts (map fst keys) ch)"
  shows "setEndpoints name keys item s =
           Return (store name (GaugeVec opts (map fst keys)
             (ch(endpointsKey (map snd keys) item \<mapsto> endpointsCount item))) s)"
proof -
  let ?labels = "map (\<lambda>f. (fst f, the (asString (lookup item (snd f))))) keys"
  from wf have fl: "fieldLabels keys item = Some ?labels"
    by (simp add: wellFormed_def fieldLabels_def list_all_iff)
  from wf obtain eps where eps: "asMaps (lookup item ''endpoints'') = Some eps"
    by (auto simp: wellFormed_def)
  have mo: "map_of ?labels n = Some (the (asString (lookup item (snd f))))"
    if "f \<in> set keys" "n = fst f" for n f
  proof -
    have "map_of ?labels = map_of (map (\<lambda>f. (fst f, (\<lambda>f. the (asString (lookup item (snd f)))) f)) keys)"
      by simp
    from d that show ?thesis
      by (intro map_of_is_SomeI) (auto simp: comp_def)
  qed
  have lv: "labelValues (map fst keys) ?labels = Some (endpointsKey (map snd keys) item)"
    using mo by (auto simp: labelValues_def endpointsKey_def comp_def)
  show ?thesis
    using fl eps c gaugeVecWith_GaugeVec [OF c lv]
    by (simp add: setEndpoints_def gaugeVecSet_def collectors_store lv store_store
          endpointsCount_def)
qed


lemma updateGauges_run:
  assumes n1: "collectors s ''moleculer_nodes_total'' = Some (Gauge g1 v1)"
    and n2: "collectors s ''moleculer_nodes''
          = Some (GaugeVec o1 [''nodeID'', ''type'', ''version'', ''langVersion''] c1)"
    and s1: "collectors s ''moleculer_services_total'' = Some (Gauge g2 v2)"
    and s2: "collectors s ''moleculer_service_endpoints_total''
          = Some (GaugeVec o2 [''service'', ''version''] c2)"
    and a1: "collectors s ''moleculer_actions_total'' = Some (Gauge g3 v3)"
    and a2: "collectors s ''moleculer_action_endpoints_total''
          = Some (GaugeVec o3 [''action''] c3)"
    and e1: "collectors s ''moleculer_events_total'' = Some (Gauge g4 v4)"
    and e2: "collectors s ''moleculer_event_endpoints_total''
          = Some (GaugeVec o4 [''event'', ''group''] c4)"
    and rn: "results ''nodes'' = Some pn" and rs: "results ''services'' = Some ps"
    and ra: "results ''actions'' = Some pa" and re: "results ''events'' = Some pe"
    and ws: "list_all (wellFormed [''name'', ''version'']) (MapArray api ps)"
    and wa: "list_all (wellFormed [''name'']) (MapArray api pa)"
    and we: "list_all (wellFormed [''name'', ''group'']) (MapArray api pe)"
  shows "updateGauges api results s =
    Return
     (store ''moleculer_event_endpoints_total''
        (GaugeVec o4 [''event'', ''group'']
           (setAll (endpointsKey [''name'', ''group'']) endpointsCount (MapArray api pe) c4))
     (store ''moleculer_events_total'' (Gauge g4 (real (length (MapArray api pe))))
     (store ''moleculer_action_endpoints_total''
        (GaugeVec o3 [''action'']
           (setAll (endpointsKey [''name'']) endpointsCount (MapArray api pa) c3))
     (store ''moleculer_actions_total'' (Gauge g3 (real (length (MapArray api pa))))
     (store ''moleculer_service_endpoints_total''
        (GaugeVec o2 [''service'', ''version'']
           (setAll (endpointsKey [''name'', ''version'']) endpointsCount (MapArray api ps) c2))
     (store ''moleculer_services_total'' (Gauge g2 (real (length (MapArray api ps))))
     (store ''moleculer_nodes''
        (GaugeVec o1 [''nodeID'', ''type'', ''version'', ''langVersion'']
           (setAll (nodeKey api) (nodeValue api) (MapArray api pn) c1))
     (store ''moleculer_nodes_total'' (Gauge g1 (real (length (MapArray api pn)))) s))))))))"
proof -
  let ?t1 = "store ''moleculer_nodes''
        (GaugeVec o1 [''nodeID'', ''type'', ''version'', ''langVersion'']
           (setAll (nodeKey api) (nodeValue api) (MapArray api pn) c1))
     (store ''moleculer_nodes_total'' (Gauge g1 (real (length (MapArray api pn)))) s)"
  let ?t2 = "store ''moleculer_service_endpoints_total''
        (GaugeVec o2 [''service'', ''version'']
           (setAll (endpointsKey [''name'', ''version'']) endpointsCount (MapArray api ps) c2))
     (store ''moleculer_services_total'' (Gauge g2 (real (length (MapArray api ps)))) ?t1)"
  let ?t3 = "store ''moleculer_action_endpoints_total''
        (GaugeVec o3 [''action'']
           (setAll (endpointsKey [''name'']) endpointsCount (MapArray api pa) c3))
     (store ''moleculer_actions_total'' (Gauge g3 (real (length (MapArray api pa)))) ?t2)"
  let ?t4 = "store ''moleculer_event_endpoints_total''
        (GaugeVec o4 [''event'', ''group'']
           (setAll (endpointsKey [''name'', ''group'']) endpointsCount (MapArray api pe) c4))
     (store ''moleculer_events_total'' (Gauge g4 (real (length (MapArray api pe)))) ?t3)"
  have g1: "updateGroup api (Some pn) ''moleculer_nodes_total'' ''moleculer_nodes''
              (setNode api) s = Return ?t1"
    by (rule updateGroup_run [OF n1 n2]) (rule setNode_run)
  have g2: "updateGroup api (Some ps) ''moleculer_services_total''
              ''moleculer_service_endpoints_total''
              (setEndpoints ''moleculer_service_endpoints_total''
                 [(''service'', ''name''), (''version'', ''version'')]) ?t1 = Return ?t2"
  proof (rule updateGroup_run)
    show "collectors ?t1 ''moleculer_services_total'' = Some (Gauge g2 v2)"
      using s1 by (simp add: collectors_store)
    show "collectors ?t1 ''moleculer_service_endpoints_total''
            = Some (GaugeVec o2 [''service'', ''version''] c2)"
      using s2 by (simp add: collectors_store)
  next
    fix r and s' :: state and ch
    assume "r \<in> set (MapArray api ps)"
      and c: "collectors s' ''moleculer_service_endpoints_total''
                = Some (GaugeVec o2 [''service'', ''version''] ch)"
    with ws have "wellFormed [''name'', ''version''] r" by (simp add: list_all_iff)
    with c setEndpoints_run [of "[(''service'', ''name''), (''version'', ''version'')]" r s'
        "''moleculer_service_endpoints_total''" o2 ch]
    show "setEndpoints ''moleculer_service_endpoints_total''
            [(''service'', ''name''), (''version'', ''version'')] r s' =
          Return (store ''moleculer_service_endpoints_total''
            (GaugeVec o2 [''service'', ''version'']
               (ch(endpointsKey [''name'', ''version''] r \<mapsto> endpointsCount r))) s')"
      by simp
  qed
  have g3: "updateGroup api (Some pa) ''moleculer_actions_total''
              ''moleculer_action_endpoints_total''
              (setEndpoints ''moleculer_action_endpoints_total'' [(''action'', ''name'')])
              ?t2 = Return ?t3"
  proof (rule updateGroup_run)
    show "collectors ?t2 ''moleculer_actions_total'' = Some (Gauge g3 v3)"
      using a1 by (simp add: collectors_store)
    show "collectors ?t2 ''moleculer_action_endpoints_total''
            = Some (GaugeVec o3 [''action''] c3)"
      using a2 by (simp add: collectors_store)
  next
    fix r and s' :: state and ch
    assume "r \<in> set (MapArray api pa)"
      and c: "collectors s' ''moleculer_action_endpoints_total''
                = Some (GaugeVec o3 [''action''] ch)"
    with wa have "wellFormed [''name''] r" by (simp add: list_all_iff)
    with c setEndpoints_run [of "[(''action'', ''name'')]" r s'
        "''moleculer_action_endpoints_total''" o3 ch]
    show "setEndpoints ''moleculer_action_endpoints_total'' [(''action'', ''name'')] r s' =
          Return (store ''moleculer_action_endpoints_total''
            (GaugeVec o3 [''action''] (ch(endpointsKey [''name''] r \<mapsto> endpointsCount r))) s')"
      by simp
  qed
  have g4: "updateGroup api (Some pe) ''moleculer_events_total''
              ''moleculer_event_endpoints_total''
              (setEndpoints ''moleculer_event_endpoints_total''
                 [(''event'', ''name''), (''group'', ''group'')]) ?t3 = Return ?t4"
  proof (rule updateGroup_run)
    show "collectors ?t3 ''moleculer_events_total'' = Some (Gauge g4 v4)"
      using e1 by (simp add: collectors_store)
    show "collectors ?t3 ''moleculer_event_endpoints_total''
            = Some (GaugeVec o4 [''event'', ''group''] c4)"
      using e2 by (simp add: collectors_store)
  next
    fix r and s' :: state and ch
    assume "r \<in> set (MapArray api pe)"
      and c: "collectors s' ''moleculer_event_endpoints_total''
                = Some (GaugeVec o4 [''event'', ''group''] ch)"
    with we have "wellFormed [''name'', ''group''] r" by (simp add: list_all_iff)
    with c setEndpoints_run [of "[(''event'', ''name''), (''group'', ''group'')]" r s'
        "''moleculer_event_endpoints_total''" o4 ch]
    show "setEndpoints ''moleculer_event_endpoints_total''
            [(''event'', ''name''), (''group'', ''group'')] r s' =
          Return (store ''moleculer_event_endpoints_total''
            (GaugeVec o4 [''event'', ''group'']
               (ch(endpointsKey [''name'', ''group''] r \<mapsto> endpointsCount r))) s')"
      by simp
  qed
  show ?thesis
    unfolding updateGauges_def rn rs ra re
    by (simp only: steps.simps g1 g2 g3 g4 outcome.case)
qed


lemma isGaugeE:
  assumes "isGauge s name"
  obtains opts v where "collectors s name = Some (Gauge opts v)"
  using assms by (auto simp: isGauge_def split: option.splits collector.splits)

lemma isGaugeVecE:
  assumes "isGaugeVec s name labelNames"
  obtains opts ch where "collectors s name = Some (GaugeVec opts labelNames ch)"
  using assms by (auto simp: isGaugeVec_def split: option.splits collector.splits)

lemma gaugeValue_store:
  "gaugeValue (store name c s) m = (if m = name then (case c of Gauge opts v \<Rightarrow> Some v | _ \<Rightarrow> None) else gaugeValue s m)"
  by (simp add: gaugeValue_def collectors_store)

lemma gaugeChild_store:
  "gaugeChild (store name c s) m k =
     (if m = name then (case c of GaugeVec opts lns ch \<Rightarrow> ch k | _ \<Rightarrow> None)
      else gaugeChild s m k)"
  by (simp add: gaugeChild_def collectors_store)

lemma lastWith_distinct:
  assumes "distinct (map keyOf rs)" and "item \<in> set rs"
  shows "lastWith keyOf rs item = item"
proof -
  from assms have "filter (\<lambda>r. keyOf r = keyOf item) rs = [item]"
  proof (induction rs)
    case Nil
    then show ?case by simp
  next
    case (Cons r rs)
    show ?case
    proof (cases "r = item")
      case True
      with Cons.prems(1) have "keyOf item \<notin> keyOf ` set rs" by simp
      then have "filter (\<lambda>r. keyOf r = keyOf item) rs = []"
        by (auto simp: filter_empty_conv image_iff)
      with True show ?thesis by simp
    next
      case False
      with Cons.prems have mem: "item \<in> set rs" and d: "distinct (map keyOf rs)" by auto
      from Cons.prems(1) mem have "keyOf r \<noteq> keyOf item" by auto
      with Cons.IH [OF d mem] show ?thesis by simp
    qed
  qed
  then show ?thesis by (simp add: lastWith_def)
qed

lemma topology_run:
  assumes tc: "topologyCollectors s" and g: "gathered api results"
  obtains s' where "updateCommonValues api results s = Return s'"
    and "updateCommonValues api results s' = Return s'"
    and "topologyCollectors s'"
    and "gaugeValue s' ''moleculer_nodes_total''
           = Some (real (length (records api results ''nodes'')))"
    and "gaugeValue s' ''moleculer_services_total''
           = Some (real (length (records api results ''services'')))"
    and "gaugeValue s' ''moleculer_actions_total''
           = Some (real (length (records api results ''actions'')))"
    and "gaugeValue s' ''moleculer_events_total''
           = Some (real (length (records api results ''events'')))"
    and "\<And>k. gaugeChild s' ''moleculer_nodes'' k =
           setAll (nodeKey api) (nodeValue api) (records api results ''nodes'')
             (gaugeChild s ''moleculer_nodes'') k"
    and "\<And>k. gaugeChild s' ''moleculer_service_endpoints_total'' k =
           setAll (endpointsKey [''name'', ''version'']) endpointsCount
             (records api results ''services'')
             (gaugeChild s ''moleculer_service_endpoints_total'') k"
    and "\<And>k. gaugeChild s' ''moleculer_action_endpoints_total'' k =
           setAll (endpointsKey [''name'']) endpointsCount (records api results ''actions'')
             (gaugeChild s ''moleculer_action_endpoints_total'') k"
    and "\<And>k. gaugeChild s' ''moleculer_event_endpoints_total'' k =
           setAll (endpointsKey [''name'', ''group'']) endpointsCount
             (records api results ''events'')
             (gaugeChild s ''moleculer_event_endpoints_total'') k"
proof -
  from tc have mc: "metricsCreated s" by (simp add: topologyCollectors_def)
  from tc obtain g1 v1 where n1: "collectors s ''moleculer_nodes_total'' = Some (Gauge g1 v1)"
    by (auto simp: topologyCollectors_def elim: isGaugeE)
  from tc obtain o1 c1 where n2: "collectors s ''moleculer_nodes''
          = Some (GaugeVec o1 [''nodeID'', ''type'', ''version'', ''langVersion''] c1)"
    by (auto simp: topologyCollectors_def elim: isGaugeVecE)
  from tc obtain g2 v2 where s1: "collectors s ''moleculer_services_total'' = Some (Gauge g2 v2)"
    by (auto simp: topologyCollectors_def elim: isGaugeE)
  from tc obtain o2 c2 where s2: "collectors s ''moleculer_service_endpoints_total''
          = Some (GaugeVec o2 [''service'', ''version''] c2)"
    by (auto simp: topologyCollectors_def elim: isGaugeVecE)
  from tc obtain g3 v3 where a1: "collectors s ''moleculer_actions_total'' = Some (Gauge g3 v3)"
    by (auto simp: topologyCollectors_def elim: isGaugeE)
  from tc obtain o3 c3 where a2: "collectors s ''moleculer_action_endpoints_total''
          = Some (GaugeVec o3 [''action''] c3)"
    by (auto simp: topologyCollectors_def elim: isGaugeVecE)
  from tc obtain g4 v4 where e1: "collectors s ''moleculer_events_total'' = Some (Gauge g4 v4)"
    by (auto simp: topologyCollectors_def elim: isGaugeE)
  from tc obtain o4 c4 where e2: "collectors s ''moleculer_event_endpoints_total''
          = Some (GaugeVec o4 [''event'', ''group''] c4)"
    by (auto simp: topologyCollectors_def elim: isGaugeVecE)
  from g obtain pn ps pa pe where rn: "results ''nodes'' = Some pn"
    and rs: "results ''services'' = Some ps" and ra: "results ''actions'' = Some pa"
    and re: "results ''events'' = Some pe"
    by (auto simp: gathered_def)
  from g rs ra re have ws: "list_all (wellFormed [''name'', ''version'']) (MapArray api ps)"
    and wa: "list_all (wellFormed [''name'']) (MapArray api pa)"
    and we: "list_all (wellFormed [''name'', ''group'']) (MapArray api pe)"
    by (simp_all add: gathered_def records_def)
  have recs: "records api results ''nodes'' = MapArray api pn"
    "records api results ''services'' = MapArray api ps"
    "records api results ''actions'' = MapArray api pa"
    "records api results ''events'' = MapArray api pe"
    using rn rs ra re by (simp_all add: records_def)
  let ?k1 = "setAll (nodeKey api) (nodeValue api) (MapArray api pn) c1"
  let ?k2 = "setAll (endpointsKey [''name'', ''version'']) endpointsCount (MapArray api ps) c2"
  let ?k3 = "setAll (endpointsKey [''name'']) endpointsCount (MapArray api pa) c3"
  let ?k4 = "setAll (endpointsKey [''name'', ''group'']) endpointsCount (MapArray api pe) c4"
  let ?F = "\<lambda>s.
     (store ''moleculer_event_endpoints_total'' (GaugeVec o4 [''event'', ''group''] ?k4)
     (store ''moleculer_events_total'' (Gauge g4 (real (length (MapArray api pe))))
     (store ''moleculer_action_endpoints_total'' (GaugeVec o3 [''action''] ?k3)
     (store ''moleculer_actions_total'' (Gauge g3 (real (length (MapArray api pa))))
     (store ''moleculer_service_endpoints_total'' (GaugeVec o2 [''service'', ''version''] ?k2)
     (store ''moleculer_services_total'' (Gauge g2 (real (length (MapArray api ps))))
     (store ''moleculer_nodes''
        (GaugeVec o1 [''nodeID'', ''type'', ''version'', ''langVersion''] ?k1)
     (store ''moleculer_nodes_total'' (Gauge g1 (real (length (MapArray api pn)))) s))))))))"
  have first: "updateGauges api results s = Return (?F s)"
    by (rule updateGauges_run [OF n1 n2 s1 s2 a1 a2 e1 e2 rn rs ra re ws wa we])
  have second: "updateGauges api results (?F s) = Return (?F (?F s))"
    by (rule updateGauges_run [where ?c1.0 = ?k1 and ?c2.0 = ?k2 and ?c3.0 = ?k3 and ?c4.0 = ?k4,
          OF _ _ _ _ _ _ _ _ rn rs ra re ws wa we, unfolded setAll_twice])
      (simp_all add: collectors_store)
  have same: "?F (?F s) = ?F s"
    by (rule state_eqI) (simp_all add: collectors_store store_other)
  have mc': "metricsCreated (?F s)" using mc by (simp add: store_other)
  have ch: "gaugeChild s ''moleculer_nodes'' = c1"
    "gaugeChild s ''moleculer_service_endpoints_total'' = c2"
    "gaugeChild s ''moleculer_action_endpoints_total'' = c3"
    "gaugeChild s ''moleculer_event_endpoints_total'' = c4"
    by (rule ext, simp add: gaugeChild_def n2 s2 a2 e2)+
  show ?thesis
  proof (rule that [of "?F s"])
    show "updateCommonValues api results s = Return (?F s)"
      using mc first by (simp add: updateCommonValues_def)
    show "updateCommonValues api results (?F s) = Return (?F s)"
      using mc' second same by (simp add: updateCommonValues_def)
    show "topologyCollectors (?F s)"
      using mc by (simp add: topologyCollectors_def isGauge_def isGaugeVec_def
            collectors_store store_other)
  qed (simp_all add: gaugeValue_store gaugeChild_store recs ch)
qed


lemma ready_topology: "topologyCollectors ready"
  by (simp add: topologyCollectors_def isGauge_def isGaugeVec_def ready_collectors)
     (simp add: ready_state)

lemma snapshot_records:
  "records rawPayload snapshot ''nodes'' = [node ''N1'', node ''N2'']"
  "records rawPayload snapshot ''services''
     = [[(''name'', IString ''music''), (''version'', IString ''1''),
         (''endpoints'', IMaps [[], [], []])]]"
  "records rawPayload snapshot ''actions'' = []"
  "records rawPayload snapshot ''events''
     = [[(''name'', IString ''rings''), (''group'', IString ''music''),
         (''endpoints'', IMaps [[], []])]]"
  "records rawPayload smaller ''nodes'' = [node ''N1'']"
  "records rawPayload smaller ''services'' = records rawPayload snapshot ''services''"
  "records rawPayload smaller ''actions'' = []"
  "records rawPayload smaller ''events'' = records rawPayload snapshot ''events''"
  by (simp_all add: records_def snapshot_def smaller_def rawPayload_def)

lemma snapshot_gathered: "gathered rawPayload snapshot" "gathered rawPayload smaller"
  by (simp_all add: gathered_def snapshot_records wellFormed_def lookup_def assert_defs)
     (simp_all add: snapshot_def smaller_def)

lemma node_key:
  "nodeKey rawPayload (node n) = [n, ''go'', ''0.1.0'', ''1.12'']"
  "nodeValue rawPayload (node n) = 1"
  by (simp_all add: nodeKey_def nodeValue_def nodeLabels_def node_def rawPayload_def lookup_def)

lemma topology_run_nodes:
  assumes "topologyCollectors s" and "gathered api results"
  shows "\<exists>s'. updateCommonValues api results s = Return s' \<and> topologyCollectors s' \<and>
              gaugeValue s' ''moleculer_nodes_total''
                = Some (real (length (records api results ''nodes''))) \<and>
              gaugeChild s' ''moleculer_nodes''
                = setAll (nodeKey api) (nodeValue api) (records api results ''nodes'')
                    (gaugeChild s ''moleculer_nodes'')"
  by (rule topology_run [OF assms]) auto



text \<open>
  C9. Under the same conditions a second run on the same snapshot returns the state that the
  first run left: every update is a \<^verbatim>\<open>Set\<close>. A run does not touch the children whose label
  values no record of the snapshot carries, so the label tuples of removed nodes, services,
  actions and events keep the value they had.
\<close>

theorem updateCommonValues_idempotent:
  assumes "topologyCollectors s" and "gathered api results"
  shows "case updateCommonValues api results s of
           Return s' \<Rightarrow>
             updateCommonValues api results s' = Return s' \<and>
             (\<forall>key. key \<notin> nodeKey api ` set (records api results ''nodes'') \<longrightarrow>
                gaugeChild s' ''moleculer_nodes'' key = gaugeChild s ''moleculer_nodes'' key) \<and>
             (\<forall>key. key \<notin> endpointsKey [''name'', ''version'']
                               ` set (records api results ''services'') \<longrightarrow>
                gaugeChild s' ''moleculer_service_endpoints_total'' key
                  = gaugeChild s ''moleculer_service_endpoints_total'' key) \<and>
             (\<forall>key. key \<notin> endpointsKey [''name''] ` set (records api results ''actions'') \<longrightarrow>
                gaugeChild s' ''moleculer_action_endpoints_total'' key
                  = gaugeChild s ''moleculer_action_endpoints_total'' key) \<and>
             (\<forall>key. key \<notin> endpointsKey [''name'', ''group'']
                               ` set (records api results ''events'') \<longrightarrow>
                gaugeChild s' ''moleculer_event_endpoints_total'' key
                  = gaugeChild s ''moleculer_event_endpoints_total'' key)
         | _ \<Rightarrow> False"
proof (rule topology_run [OF assms])
  fix s'
  assume run: "updateCommonValues api results s = Return s'"
    and again: "updateCommonValues api results s' = Return s'"
    and "topologyCollectors s'"
    and totals: "gaugeValue s' ''moleculer_nodes_total''
           = Some (real (length (records api results ''nodes'')))"
      "gaugeValue s' ''moleculer_services_total''
           = Some (real (length (records api results ''services'')))"
      "gaugeValue s' ''moleculer_actions_total''
           = Some (real (length (records api results ''actions'')))"
      "gaugeValue s' ''moleculer_events_total''
           = Some (real (length (records api results ''events'')))"
    and children: "\<And>k. gaugeChild s' ''moleculer_nodes'' k =
           setAll (nodeKey api) (nodeValue api) (records api results ''nodes'')
             (gaugeChild s ''moleculer_nodes'') k"
      "\<And>k. gaugeChild s' ''moleculer_service_endpoints_total'' k =
           setAll (endpointsKey [''name'', ''version'']) endpointsCount
             (records api results ''services'')
             (gaugeChild s ''moleculer_service_endpoints_total'') k"
      "\<And>k. gaugeChild s' ''moleculer_action_endpoints_total'' k =
           setAll (endpointsKey [''name'']) endpointsCount (records api results ''actions'')
             (gaugeChild s ''moleculer_action_endpoints_total'') k"
      "\<And>k. gaugeChild s' ''moleculer_event_endpoints_total'' k =
           setAll (endpointsKey [''name'', ''group'']) endpointsCount
             (records api results ''events'')
             (gaugeChild s ''moleculer_event_endpoints_total'') k"
  show ?thesis
    unfolding run
    by (simp add: again children setAll_apply)
qed


theorem updateCommonValues_idempotent_witness:
  "topologyCollectors (stateOf (updateCommonValues rawPayload snapshot ready))
   \<and> gathered rawPayload smaller
   \<and> gaugeChild (stateOf (updateCommonValues rawPayload snapshot ready)) ''moleculer_nodes''
         [''N2'', ''go'', ''0.1.0'', ''1.12''] = Some 1
   \<and> (case updateCommonValues rawPayload smaller
              (stateOf (updateCommonValues rawPayload snapshot ready)) of
         Return s' \<Rightarrow>
           updateCommonValues rawPayload smaller s' = Return s' \<and>
           gaugeChild s' ''moleculer_nodes'' [''N2'', ''go'', ''0.1.0'', ''1.12''] = Some 1
       | _ \<Rightarrow> False)"
proof -
  from topology_run_nodes [OF ready_topology snapshot_gathered(1)]
  obtain s1 where r1: "updateCommonValues rawPayload snapshot ready = Return s1"
    and tc1: "topologyCollectors s1"
    and ch1: "gaugeChild s1 ''moleculer_nodes''
                = setAll (nodeKey rawPayload) (nodeValue rawPayload)
                    (records rawPayload snapshot ''nodes'') (gaugeChild ready ''moleculer_nodes'')"
    by blast
  have n2: "gaugeChild s1 ''moleculer_nodes'' [''N2'', ''go'', ''0.1.0'', ''1.12''] = Some 1"
    by (simp add: ch1 setAll_apply snapshot_records node_key)
  have stale: "[''N2'', ''go'', ''0.1.0'', ''1.12'']
                 \<notin> nodeKey rawPayload ` set (records rawPayload smaller ''nodes'')"
    by (simp add: snapshot_records node_key)
  from updateCommonValues_idempotent [OF tc1 snapshot_gathered(2)] stale n2
  show ?thesis
    unfolding r1 using tc1 snapshot_gathered(2)
    by (auto split: outcome.splits)
qed


section \<open>Results that failed\<close>

lemma steps_keeps:
  assumes "\<And>f s. f \<in> set fs \<Longrightarrow> collectors (stateOf (f s)) name = collectors s name"
  shows "collectors (stateOf (steps fs s)) name = collectors s name"
  using assms
proof (induction fs arbitrary: s)
  case Nil
  then show ?case by simp
next
  case (Cons f fs)
  have first: "collectors (stateOf (f s)) name = collectors s name"
    by (rule Cons.prems) simp
  show ?case
  proof (cases "f s")
    case (Return s1)
    have "collectors (stateOf (steps fs s1)) name = collectors s1 name"
      by (rule Cons.IH) (rule Cons.prems, simp)
    with Return first show ?thesis by simp
  qed (use first in simp_all)
qed

lemma gaugeSet_keeps:
  "m \<noteq> name \<Longrightarrow> collectors (stateOf (gaugeSet name v s)) m = collectors s m"
  by (simp add: gaugeSet_def collectors_store split: option.splits collector.splits)

lemma assertGaugeVec_keeps:
  "collectors (stateOf (assertGaugeVec name s)) m = collectors s m"
  by (simp add: assertGaugeVec_def split: option.splits collector.splits)

lemma gaugeVecSet_keeps:
  "m \<noteq> name \<Longrightarrow> collectors (stateOf (gaugeVecSet name labels v s)) m = collectors s m"
  by (simp add: gaugeVecSet_def collectors_store split: option.splits collector.splits)

lemma gaugeVecWith_keeps:
  "m \<noteq> name \<Longrightarrow> collectors (stateOf (gaugeVecWith name labels s)) m = collectors s m"
  by (simp add: gaugeVecWith_def collectors_store split: option.splits collector.splits)

lemma setEndpoints_keeps:
  assumes "m \<noteq> name"
  shows "collectors (stateOf (setEndpoints name keys item s)) m = collectors s m"
proof (cases "fieldLabels keys item")
  case None
  then show ?thesis by (simp add: setEndpoints_def)
next
  case (Some labels)
  note w = gaugeVecWith_keeps [OF assms, where labels = labels and s = s]
  show ?thesis
  proof (cases "gaugeVecWith name labels s")
    case (Return s1)
    with w have s1: "collectors s1 m = collectors s m" by simp
    show ?thesis
      using Some Return s1 gaugeVecSet_keeps [OF assms, where labels = labels and s = s1]
      by (simp add: setEndpoints_def split: option.splits)
  qed (use Some w in \<open>simp_all add: setEndpoints_def\<close>)
qed

lemma updateGroup_keeps:
  assumes "m \<noteq> totalName" and "m \<noteq> family"
    and body: "\<And>r s. collectors (stateOf (body r s)) m = collectors s m"
  shows "collectors (stateOf (updateGroup api result totalName family body s)) m
           = collectors s m"
proof (cases result)
  case None
  then show ?thesis by (simp add: updateGroup_def)
next
  case (Some p)
  have "collectors (stateOf (steps (gaugeSet totalName (real (length (MapArray api p))) #
          assertGaugeVec family # map body (MapArray api p)) s)) m = collectors s m"
    by (rule steps_keeps) (use assms in \<open>auto simp: gaugeSet_keeps assertGaugeVec_keeps\<close>)
  with Some show ?thesis by (simp add: updateGroup_def Let_def)
qed

lemma nodes_stand:
  assumes tc: "topologyCollectors s" and rn: "results ''nodes'' = Some pn"
  shows "gaugeValue (stateOf (updateCommonValues api results s)) ''moleculer_nodes_total''
           = Some (real (length (MapArray api pn)))"
    and "gaugeChild (stateOf (updateCommonValues api results s)) ''moleculer_nodes''
           = setAll (nodeKey api) (nodeValue api) (MapArray api pn)
               (gaugeChild s ''moleculer_nodes'')"
proof -
  from tc have mc: "metricsCreated s" by (simp add: topologyCollectors_def)
  from tc obtain g1 v1 where n1: "collectors s ''moleculer_nodes_total'' = Some (Gauge g1 v1)"
    by (auto simp: topologyCollectors_def elim: isGaugeE)
  from tc obtain o1 c1 where n2: "collectors s ''moleculer_nodes''
          = Some (GaugeVec o1 [''nodeID'', ''type'', ''version'', ''langVersion''] c1)"
    by (auto simp: topologyCollectors_def elim: isGaugeVecE)
  let ?t1 = "store ''moleculer_nodes''
        (GaugeVec o1 [''nodeID'', ''type'', ''version'', ''langVersion'']
           (setAll (nodeKey api) (nodeValue api) (MapArray api pn) c1))
     (store ''moleculer_nodes_total'' (Gauge g1 (real (length (MapArray api pn)))) s)"
  let ?rest = "[updateGroup api (results ''services'') ''moleculer_services_total''
          ''moleculer_service_endpoints_total''
          (setEndpoints ''moleculer_service_endpoints_total''
             [(''service'', ''name''), (''version'', ''version'')]),
        updateGroup api (results ''actions'') ''moleculer_actions_total''
          ''moleculer_action_endpoints_total''
          (setEndpoints ''moleculer_action_endpoints_total'' [(''action'', ''name'')]),
        updateGroup api (results ''events'') ''moleculer_events_total''
          ''moleculer_event_endpoints_total''
          (setEndpoints ''moleculer_event_endpoints_total''
             [(''event'', ''name''), (''group'', ''group'')])]"
  have g1: "updateGroup api (Some pn) ''moleculer_nodes_total'' ''moleculer_nodes''
              (setNode api) s = Return ?t1"
    by (rule updateGroup_run [OF n1 n2]) (rule setNode_run)
  have run: "updateCommonValues api results s = steps ?rest ?t1"
    using mc g1 rn by (simp add: updateCommonValues_def updateGauges_def)
  have keep: "collectors (stateOf (steps ?rest ?t1)) m = collectors ?t1 m"
    if "m = ''moleculer_nodes_total'' \<or> m = ''moleculer_nodes''" for m
    by (rule steps_keeps) (use that in \<open>auto intro!: updateGroup_keeps setEndpoints_keeps\<close>)
  have c: "gaugeChild s ''moleculer_nodes'' = c1"
    by (rule ext) (simp add: gaugeChild_def n2)
  have k1: "collectors (stateOf (updateCommonValues api results s)) ''moleculer_nodes_total''
              = collectors ?t1 ''moleculer_nodes_total''"
    unfolding run by (rule keep) simp
  have k2: "collectors (stateOf (updateCommonValues api results s)) ''moleculer_nodes''
              = collectors ?t1 ''moleculer_nodes''"
    unfolding run by (rule keep) simp
  show "gaugeValue (stateOf (updateCommonValues api results s)) ''moleculer_nodes_total''
           = Some (real (length (MapArray api pn)))"
    by (simp add: gaugeValue_def k1 collectors_store)
  show "gaugeChild (stateOf (updateCommonValues api results s)) ''moleculer_nodes''
           = setAll (nodeKey api) (nodeValue api) (MapArray api pn)
               (gaugeChild s ''moleculer_nodes'')"
    unfolding c by (rule ext) (simp add: gaugeChild_def k2 collectors_store)
qed


text \<open>
  C6, as the claim states it, fails: with the services result an error, the run still sets the
  node total, from 0 to 2. The handler never asks a result whether it is an error.
\<close>

theorem updateCommonValues_failed_subquery:
  "failedSnapshot ''services'' = Some (IError ''request timeout'')
   \<and> IsError rawPayload (IError ''request timeout'')
   \<and> gaugeValue ready ''moleculer_nodes_total'' = Some 0
   \<and> gaugeValue (stateOf (updateCommonValues rawPayload failedSnapshot ready))
         ''moleculer_nodes_total'' = Some 2"
proof -
  have rn: "failedSnapshot ''nodes'' = Some (IMaps [node ''N1'', node ''N2''])"
    by (simp add: failedSnapshot_def snapshot_def)
  have "gaugeValue (stateOf (updateCommonValues rawPayload failedSnapshot ready))
         ''moleculer_nodes_total'' = Some (real (length (MapArray rawPayload (IMaps [node ''N1'', node ''N2'']))))"
    by (rule nodes_stand(1) [where results = failedSnapshot and api = rawPayload, OF ready_topology rn])
  then show ?thesis
    by (simp add: failedSnapshot_def rawPayload_def gaugeValue_def ready_collectors)
qed

lemma failedSnapshot_records:
  "records rawPayload failedSnapshot ''nodes'' = [node ''N1'', node ''N2'']"
  "records rawPayload failedSnapshot ''services'' = []"
  "records rawPayload failedSnapshot ''actions'' = []"
  "records rawPayload failedSnapshot ''events''
     = [[(''name'', IString ''rings''), (''group'', IString ''music''),
         (''endpoints'', IMaps [[], []])]]"
  by (simp_all add: records_def failedSnapshot_def snapshot_def rawPayload_def)

lemma failedSnapshot_gathered:
  "gathered rawPayload failedSnapshot" "failed rawPayload failedSnapshot"
  by (simp_all add: gathered_def failed_def failedSnapshot_records wellFormed_def lookup_def
        assert_defs)
     (simp_all add: failedSnapshot_def snapshot_def rawPayload_def)

text \<open>
  C6, amended. The handler never asks a result whether it is an error, so a failed sub-query
  does not make the run abort. When the eight gauges are in the map and the four results are
  there with well-formed records, one or more of them being an error, \<^verbatim>\<open>updateCommonValues\<close>
  returns without a panic, and it has applied all four groups: every total holds the length of
  the records that its result converts to, the failed one included, and every labelled gauge
  has been written for each of these records and is otherwise as it was. No gauge is kept at
  its value from before the run because of the failure.
\<close>

theorem updateCommonValues_no_abort:
  assumes "topologyCollectors s" and "gathered api results" and "failed api results"
  shows "case updateCommonValues api results s of
           Return s' \<Rightarrow>
             gaugeValue s' ''moleculer_nodes_total''
               = Some (real (length (records api results ''nodes''))) \<and>
             gaugeValue s' ''moleculer_services_total''
               = Some (real (length (records api results ''services''))) \<and>
             gaugeValue s' ''moleculer_actions_total''
               = Some (real (length (records api results ''actions''))) \<and>
             gaugeValue s' ''moleculer_events_total''
               = Some (real (length (records api results ''events''))) \<and>
             gaugeChild s' ''moleculer_nodes''
               = setAll (nodeKey api) (nodeValue api) (records api results ''nodes'')
                   (gaugeChild s ''moleculer_nodes'') \<and>
             gaugeChild s' ''moleculer_service_endpoints_total''
               = setAll (endpointsKey [''name'', ''version'']) endpointsCount
                   (records api results ''services'')
                   (gaugeChild s ''moleculer_service_endpoints_total'') \<and>
             gaugeChild s' ''moleculer_action_endpoints_total''
               = setAll (endpointsKey [''name'']) endpointsCount
                   (records api results ''actions'')
                   (gaugeChild s ''moleculer_action_endpoints_total'') \<and>
             gaugeChild s' ''moleculer_event_endpoints_total''
               = setAll (endpointsKey [''name'', ''group'']) endpointsCount
                   (records api results ''events'')
                   (gaugeChild s ''moleculer_event_endpoints_total'')
         | _ \<Rightarrow> False"
proof (rule topology_run [OF assms(1,2)])
  fix s'
  assume run: "updateCommonValues api results s = Return s'"
    and again: "updateCommonValues api results s' = Return s'"
    and "topologyCollectors s'"
    and totals: "gaugeValue s' ''moleculer_nodes_total''
           = Some (real (length (records api results ''nodes'')))"
      "gaugeValue s' ''moleculer_services_total''
           = Some (real (length (records api results ''services'')))"
      "gaugeValue s' ''moleculer_actions_total''
           = Some (real (length (records api results ''actions'')))"
      "gaugeValue s' ''moleculer_events_total''
           = Some (real (length (records api results ''events'')))"
    and children: "\<And>k. gaugeChild s' ''moleculer_nodes'' k =
           setAll (nodeKey api) (nodeValue api) (records api results ''nodes'')
             (gaugeChild s ''moleculer_nodes'') k"
      "\<And>k. gaugeChild s' ''moleculer_service_endpoints_total'' k =
           setAll (endpointsKey [''name'', ''version'']) endpointsCount
             (records api results ''services'')
             (gaugeChild s ''moleculer_service_endpoints_total'') k"
      "\<And>k. gaugeChild s' ''moleculer_action_endpoints_total'' k =
           setAll (endpointsKey [''name'']) endpointsCount (records api results ''actions'')
             (gaugeChild s ''moleculer_action_endpoints_total'') k"
      "\<And>k. gaugeChild s' ''moleculer_event_endpoints_total'' k =
           setAll (endpointsKey [''name'', ''group'']) endpointsCount
             (records api results ''events'')
             (gaugeChild s ''moleculer_event_endpoints_total'') k"
  have fams: "gaugeChild s' ''moleculer_nodes''
               = setAll (nodeKey api) (nodeValue api) (records api results ''nodes'')
                   (gaugeChild s ''moleculer_nodes'')"
    "gaugeChild s' ''moleculer_service_endpoints_total''
               = setAll (endpointsKey [''name'', ''version'']) endpointsCount
                   (records api results ''services'')
                   (gaugeChild s ''moleculer_service_endpoints_total'')"
    "gaugeChild s' ''moleculer_action_endpoints_total''
               = setAll (endpointsKey [''name'']) endpointsCount
                   (records api results ''actions'')
                   (gaugeChild s ''moleculer_action_endpoints_total'')"
    "gaugeChild s' ''moleculer_event_endpoints_total''
               = setAll (endpointsKey [''name'', ''group'']) endpointsCount
                   (records api results ''events'')
                   (gaugeChild s ''moleculer_event_endpoints_total'')"
    by (rule ext, rule children)+
  show ?thesis
    unfolding run by (simp add: totals fams)
qed

theorem updateCommonValues_no_abort_witness:
  "topologyCollectors ready \<and> gathered rawPayload failedSnapshot
   \<and> failed rawPayload failedSnapshot
   \<and> (case updateCommonValues rawPayload failedSnapshot ready of
         Return s' \<Rightarrow>
           gaugeValue s' ''moleculer_nodes_total'' = Some 2 \<and>
           gaugeValue s' ''moleculer_services_total'' = Some 0 \<and>
           gaugeValue s' ''moleculer_actions_total'' = Some 0 \<and>
           gaugeValue s' ''moleculer_events_total'' = Some 1 \<and>
           gaugeChild s' ''moleculer_nodes'' [''N2'', ''go'', ''0.1.0'', ''1.12''] = Some 1 \<and>
           gaugeChild s' ''moleculer_service_endpoints_total'' [''music'', ''1''] = None \<and>
           gaugeChild s' ''moleculer_event_endpoints_total'' [''rings'', ''music''] = Some 2
       | _ \<Rightarrow> False)"
proof -
  have none: "gaugeChild ready ''moleculer_nodes'' = Map.empty"
    "gaugeChild ready ''moleculer_service_endpoints_total'' = Map.empty"
    "gaugeChild ready ''moleculer_event_endpoints_total'' = Map.empty"
    by (rule ext, simp add: gaugeChild_def ready_collectors)+
  from updateCommonValues_no_abort
         [OF ready_topology failedSnapshot_gathered(1) failedSnapshot_gathered(2)]
  show ?thesis
    using ready_topology failedSnapshot_gathered
    by (simp add: failedSnapshot_records setAll_apply setAll_Nil node_key endpointsKey_def
          endpointsCount_def none lookup_def assert_defs split: outcome.splits)
qed


section \<open>Settings without metrics\<close>

text \<open>
  C5, as the claim states it, fails: with settings that have no \<^verbatim>\<open>metrics\<close>, \<^verbatim>\<open>Started\<close> logs the
  error and goes on to serve the endpoint, with no collector in the map.
\<close>

theorem Started_without_metrics_serves:
  "\<not> exists [(''port'', IInt 3030), (''endpoint'', IString ''/metrics'')] ''metrics''
   \<and> Started (\<lambda>c. True) [(''port'', IInt 3030), (''endpoint'', IString ''/metrics'')]
         PrometheusService
       = Serving (IInt 3030) ''/metrics''
           (PrometheusService\<lparr>errorLog :=
              [''createMetrics() no metrics field found in the service settings!'']\<rparr>)
   \<and> collectors (PrometheusService\<lparr>errorLog :=
              [''createMetrics() no metrics field found in the service settings!'']\<rparr>)
       ''moleculer_nodes_total'' = None"
  by (simp add: Started_def createMetrics_def exists_def listen_def lookup_def asString_def
        PrometheusService_def)

text \<open>
  C5, amended. When \<^verbatim>\<open>metrics\<close> is missing or not a map, \<^verbatim>\<open>createMetrics\<close> logs one error and
  returns: it creates and registers no collector and does not set the flag or send on the
  gate. \<^verbatim>\<open>Started\<close> then goes on with the lines that mount the handler and listen, and serves
  the endpoint when the \<^verbatim>\<open>endpoint\<close> setting is a string.
\<close>

theorem Started_without_metrics:
  assumes "\<not> exists settings ''metrics'' \<or> asMap (lookup settings ''metrics'') = None"
  shows "case createMetrics accepts settings s of
           Return s' \<Rightarrow>
             collectors s' = collectors s \<and> registered s' = registered s \<and>
             metricsCreated s' = metricsCreated s \<and>
             length (errorLog s') = length (errorLog s) + 1 \<and>
             Started accepts settings s = listen settings s' \<and>
             (case asString (lookup settings ''endpoint'') of
                Some endpoint \<Rightarrow>
                  Started accepts settings s = Serving (lookup settings ''port'') endpoint s'
              | None \<Rightarrow> Started accepts settings s = Panic TypeAssertion s')
         | _ \<Rightarrow> False"
  using assms
  by (auto simp: createMetrics_def Started_def listen_def split: option.splits)

theorem Started_without_metrics_witness:
  "asMap (lookup [(''port'', IInt 3030), (''endpoint'', IString ''/metrics''),
                  (''metrics'', IStrings [])] ''metrics'') = None
   \<and> (case createMetrics (\<lambda>c. True)
              [(''port'', IInt 3030), (''endpoint'', IString ''/metrics''),
               (''metrics'', IStrings [])] PrometheusService of
         Return s' \<Rightarrow>
           collectors s' = Map.empty \<and> \<not> metricsCreated s' \<and> length (errorLog s') = 1 \<and>
           Started (\<lambda>c. True)
              [(''port'', IInt 3030), (''endpoint'', IString ''/metrics''),
               (''metrics'', IStrings [])] PrometheusService
             = Serving (IInt 3030) ''/metrics'' s'
       | _ \<Rightarrow> False)"
  using Started_without_metrics
          [where settings = "[(''port'', IInt 3030), (''endpoint'', IString ''/metrics''),
                              (''metrics'', IStrings [])]"
             and accepts = "\<lambda>c. True" and s = PrometheusService]
  by (simp add: lookup_def asMap_def asString_def exists_def createMetrics_def listen_def
        PrometheusService_def split: outcome.splits)

section \<open>An event before the metrics are created\<close>

text \<open>
  C4. In the state in which the closures are handed out, before \<^verbatim>\<open>createMetrics\<close> has run,
  the trace handler does not wait for the gate: its first assertion, on the collector
  \<^verbatim>\<open>moleculer_all_req_total\<close> that is not there yet, panics. The topology handler in the same
  state parks at the receive on the gate.
\<close>

theorem traceSpanFinished_before_createMetrics:
  "traceSpanFinished api payload PrometheusService = Panic TypeAssertion PrometheusService
   \<and> updateCommonValues api results PrometheusService = GateRecv PrometheusService"
  by (simp add: traceSpanFinished_def updateCommonValues_def counterInc_def
        PrometheusService_def Let_def)


end
